theory Spec2Isabelle
  imports Complex_Main
begin

section \<open>Data of the storefront\<close>

text \<open>
  Strings of the source are modelled as ASCII character lists. A number of the source is
  a double; it is modelled by the rational it denotes (ratings, prices) or by an integer
  (indices, millisecond timestamps), and the value \<open>NaN\<close> of an index or timestamp is
  \<open>None\<close>. The absent values \<open>undefined\<close> and \<open>null\<close> of an optional field are \<open>None\<close>
  as well.
\<close>

subsection \<open>Arithmetic on doubles\<close>

text \<open>
  Addition and division of the source are those of IEEE 754 binary64: the exact result,
  rounded to the nearest double, a tie to the one with an even significand.
  \<open>exponent x\<close> is the \<open>e\<close> with \<open>2 ^ e \<le> x < 2 ^ (e + 1)\<close>, not below \<open>-1022\<close> (the
  subnormal range); neighbouring doubles around \<open>x\<close> are \<open>2 ^ (e - 52)\<close> apart. The
  results \<open>Infinity\<close> and \<open>NaN\<close> have no counterpart among the rationals: magnitudes from
  \<open>2 ^ 1024\<close> on and a division by zero are outside the model.
\<close>

definition pow2 :: "int \<Rightarrow> rat" where
  "pow2 k = (if 0 \<le> k then 2 ^ nat k else 1 / 2 ^ nat (- k))"

fun halvings :: "nat \<Rightarrow> rat \<Rightarrow> int" where
  "halvings 0 x = 0"
| "halvings (Suc n) x = (if x < 2 then 0 else 1 + halvings n (x / 2))"

fun doublings :: "nat \<Rightarrow> rat \<Rightarrow> int" where
  "doublings 0 x = 0"
| "doublings (Suc n) x = (if 1 \<le> x then 0 else doublings n (2 * x) - 1)"

definition exponent :: "rat \<Rightarrow> int" where
  "exponent x = (if 1 \<le> x then halvings 1024 x else doublings 1022 x)"

definition round_half_even :: "rat \<Rightarrow> int" where
  "round_half_even m =
     (let f = \<lfloor>m\<rfloor>; r = m - of_int f in
      if r < 1 / 2 then f else if 1 / 2 < r then f + 1 else if even f then f else f + 1)"

definition to_double :: "rat \<Rightarrow> rat" where
  "to_double x =
     (if x = 0 then 0
      else let q = pow2 (exponent \<bar>x\<bar> - 52)
           in sgn x * of_int (round_half_even (\<bar>x\<bar> / q)) * q)"

definition js_add :: "rat \<Rightarrow> rat \<Rightarrow> rat" where
  "js_add a b = to_double (a + b)"

definition js_div :: "rat \<Rightarrow> rat \<Rightarrow> rat" where
  "js_div a b = to_double (a / b)"

text \<open>The fields of \<open>Product\<close> (declared in \<open>src/types\<close>) that the components read.\<close>

record Product =
  p_id :: string
  p_name :: string
  p_price :: rat
  p_image :: string
  p_rating :: "rat option"

record User =
  uid :: string

text \<open>A row of the table \<open>product_ratings\<close>.\<close>

record rating_row =
  r_product_id :: string
  r_user_id :: string
  r_rating :: rat

subsection \<open>The page state shared by both components\<close>

datatype ntype = success | error

datatype timer = FadeOut nat | RemoveChild nat | ResetLinkCopied

record ui =
  user :: "User option"
  linkCopied :: bool
  location_href :: string
  navigated :: "string list"
  body :: "(string \<times> ntype) list"
  fading :: "nat list"
  removed :: "nat list"
  timers :: "(nat \<times> timer) list"
  console :: "string list"

definition isLoggedIn :: "'a ui_scheme \<Rightarrow> bool" where
  "isLoggedIn st = (user st \<noteq> None)"

text \<open>
  \<open>body\<close> lists the notification elements in the order they were appended to the
  document body, each with its text and its colour class; the position of an element in
  this list is its identity. \<open>fading\<close> lists the elements that carry the class
  \<open>animate-fade-out\<close>, \<open>removed\<close> the ones taken out of the document again, and \<open>timers\<close>
  the calls of \<open>setTimeout\<close>, each with its delay in ms.

  \<open>showNotification\<close> (the same text in both components) appends an element and starts
  the 3000 ms timer; its callback adds the class to that element and starts the 300 ms
  timer whose callback removes that element.
\<close>

definition showNotification :: "string \<Rightarrow> ntype \<Rightarrow> 'a ui_scheme \<Rightarrow> 'a ui_scheme" where
  "showNotification message type st =
     st\<lparr>body := body st @ [(message, type)],
        timers := timers st @ [(3000, FadeOut (length (body st)))]\<rparr>"

definition console_error :: "string \<Rightarrow> 'a ui_scheme \<Rightarrow> 'a ui_scheme" where
  "console_error message st = st\<lparr>console := console st @ [message]\<rparr>"

text \<open>Running the callback of a timer.\<close>

fun fire :: "timer \<Rightarrow> 'a ui_scheme \<Rightarrow> 'a ui_scheme" where
  "fire ResetLinkCopied st = st\<lparr>linkCopied := False\<rparr>"
| "fire (FadeOut i) st =
     st\<lparr>fading := List.insert i (fading st),
        timers := timers st @ [(300, RemoveChild i)]\<rparr>"
| "fire (RemoveChild i) st = st\<lparr>removed := List.insert i (removed st)\<rparr>"

text \<open>The notification elements that are in the document.\<close>

definition shown :: "'a ui_scheme \<Rightarrow> (string \<times> ntype) list" where
  "shown st = map snd (filter (\<lambda>(i, n). i \<notin> set (removed st)) (enumerate 0 (body st)))"

record card = ui +
  showShareOptions :: bool

record details = ui +
  productId :: "string option"
  loading :: bool
  product :: "Product option"
  productImages :: "string list"
  currentImageIndex :: "int option"
  rating :: rat
  hoverRating :: rat
  hasRated :: bool

subsection \<open>Remote calls\<close>

text \<open>
  An awaited call either resolves to the pair \<open>{data, error}\<close> or rejects. A handler is
  a tree: a leaf is the state the handler ends in, an inner node is a call the handler
  awaits, with the state at that moment and the continuation that receives the answer.
  So a later call can only be issued by the continuation of the earlier one.
\<close>

datatype 'a response = Resolved "'a option" "string option" | Rejected string

datatype 's prog =
    Done 's
  | SelectProduct 's string "Product response \<Rightarrow> 's prog"
  | SelectImages 's string "string list response \<Rightarrow> 's prog"
  | SelectUserRatings 's string string "rat list response \<Rightarrow> 's prog"
  | Upsert 's string string rat "unit response \<Rightarrow> 's prog"
  | SelectRatings 's string "rat list response \<Rightarrow> 's prog"
  | UpdateRating 's string rat "unit response \<Rightarrow> 's prog"
  | AddToCart 's Product "unit response \<Rightarrow> 's prog"
  | WriteText 's string "unit response \<Rightarrow> 's prog"

datatype request =
    ReqSelectProduct string
  | ReqSelectImages string
  | ReqSelectUserRatings string string
  | ReqUpsert string string rat
  | ReqSelectRatings string
  | ReqUpdateRating string rat
  | ReqAddToCart Product
  | ReqWriteText string

section \<open>The image gallery\<close>

text \<open>The remainder operator \<open>%\<close> on integers: the sign of the dividend, \<open>NaN\<close> for a zero divisor.\<close>

definition js_rem :: "int \<Rightarrow> int \<Rightarrow> int option" where
  "js_rem a b = (if b = 0 then None else Some (sgn a * (\<bar>a\<bar> mod \<bar>b\<bar>)))"

definition nextImage :: "details \<Rightarrow> details" where
  "nextImage st =
     st\<lparr>currentImageIndex :=
          Option.bind (currentImageIndex st)
            (\<lambda>prev. js_rem (prev + 1) (int (length (productImages st))))\<rparr>"

definition prevImage :: "details \<Rightarrow> details" where
  "prevImage st =
     st\<lparr>currentImageIndex :=
          Option.bind (currentImageIndex st)
            (\<lambda>prev. js_rem (prev - 1 + int (length (productImages st)))
                       (int (length (productImages st))))\<rparr>"


section \<open>The hosted data service\<close>

text \<open>
  The data service is outside the repository. It is modelled as three tables, the cart
  store and the clipboard, answering one call at a time. Each call first takes the next
  entry of a fault schedule: the call is served, or it resolves with an error and no
  data, or it rejects; a faulty call changes nothing. The upsert is keyed on the pair of
  product and user.
\<close>

datatype fault = NoFault | ErrorResult string | Rejection string

record world =
  products :: "Product list"
  product_images :: "(string \<times> string) list"
  product_ratings :: "rating_row list"
  cart :: "Product list"
  clipboard :: string
  faults :: "fault list"

definition answer :: "(world \<Rightarrow> 'a response \<times> world) \<Rightarrow> world \<Rightarrow> 'a response \<times> world" where
  "answer serve w =
     (case faults w of
        [] \<Rightarrow> serve w
      | NoFault # fs \<Rightarrow> serve (w\<lparr>faults := fs\<rparr>)
      | ErrorResult e # fs \<Rightarrow> (Resolved None (Some e), w\<lparr>faults := fs\<rparr>)
      | Rejection e # fs \<Rightarrow> (Rejected e, w\<lparr>faults := fs\<rparr>))"

definition select_product :: "string \<Rightarrow> world \<Rightarrow> Product response \<times> world" where
  "select_product pid w =
     (case filter (\<lambda>p. p_id p = pid) (products w) of
        [p] \<Rightarrow> (Resolved (Some p) None, w)
      | _ \<Rightarrow> (Resolved None (Some ''PGRST116''), w))"

definition select_images :: "string \<Rightarrow> world \<Rightarrow> string list response \<times> world" where
  "select_images pid w =
     (Resolved (Some (map snd (filter (\<lambda>r. fst r = pid) (product_images w)))) None, w)"

definition ratings_of :: "string \<Rightarrow> world \<Rightarrow> rat list" where
  "ratings_of pid w = map r_rating (filter (\<lambda>r. r_product_id r = pid) (product_ratings w))"

definition select_ratings :: "string \<Rightarrow> world \<Rightarrow> rat list response \<times> world" where
  "select_ratings pid w = (Resolved (Some (ratings_of pid w)) None, w)"

definition select_user_ratings ::
  "string \<Rightarrow> string \<Rightarrow> world \<Rightarrow> rat list response \<times> world" where
  "select_user_ratings pid u w =
     (Resolved (Some (map r_rating
        (filter (\<lambda>r. r_product_id r = pid \<and> r_user_id r = u) (product_ratings w)))) None, w)"

definition upsert :: "string \<Rightarrow> string \<Rightarrow> rat \<Rightarrow> world \<Rightarrow> unit response \<times> world" where
  "upsert pid u v w =
     (Resolved None None,
      w\<lparr>product_ratings :=
          (if \<exists>r \<in> set (product_ratings w). r_product_id r = pid \<and> r_user_id r = u
           then map (\<lambda>r. if r_product_id r = pid \<and> r_user_id r = u then r\<lparr>r_rating := v\<rparr> else r)
                  (product_ratings w)
           else product_ratings w @ [\<lparr>r_product_id = pid, r_user_id = u, r_rating = v\<rparr>])\<rparr>)"

definition update_rating :: "string \<Rightarrow> rat \<Rightarrow> world \<Rightarrow> unit response \<times> world" where
  "update_rating pid v w =
     (Resolved None None,
      w\<lparr>products := map (\<lambda>p. if p_id p = pid then p\<lparr>p_rating := Some v\<rparr> else p) (products w)\<rparr>)"

text \<open>
  Modelled from the spec: the cart store (\<open>src/store/cartStore\<close>) is not among the
  sources; the spec names cart management only, so \<open>addToCart\<close> is taken to put the
  product into the cart.
\<close>

definition add_to_cart :: "Product \<Rightarrow> world \<Rightarrow> unit response \<times> world" where
  "add_to_cart p w = (Resolved None None, w\<lparr>cart := cart w @ [p]\<rparr>)"

definition write_text :: "string \<Rightarrow> world \<Rightarrow> unit response \<times> world" where
  "write_text s w = (Resolved None None, w\<lparr>clipboard := s\<rparr>)"

text \<open>
  Running a handler against the service gives the state it ends in, the service
  afterwards, and the calls in the order they were issued, each with the page state at
  the moment it was issued.
\<close>

definition logged ::
  "'s \<Rightarrow> request \<Rightarrow> 's \<times> world \<times> ('s \<times> request) list \<Rightarrow> 's \<times> world \<times> ('s \<times> request) list" where
  "logged s q res = (case res of (s', w', t) \<Rightarrow> (s', w', (s, q) # t))"

primrec exec :: "'s prog \<Rightarrow> world \<Rightarrow> 's \<times> world \<times> ('s \<times> request) list" where
  "exec (Done s) w = (s, w, [])"
| "exec (SelectProduct s pid k) w =
     (case answer (select_product pid) w of (r, w') \<Rightarrow>
        logged s (ReqSelectProduct pid) (exec (k r) w'))"
| "exec (SelectImages s pid k) w =
     (case answer (select_images pid) w of (r, w') \<Rightarrow>
        logged s (ReqSelectImages pid) (exec (k r) w'))"
| "exec (SelectUserRatings s pid u k) w =
     (case answer (select_user_ratings pid u) w of (r, w') \<Rightarrow>
        logged s (ReqSelectUserRatings pid u) (exec (k r) w'))"
| "exec (Upsert s pid u v k) w =
     (case answer (upsert pid u v) w of (r, w') \<Rightarrow>
        logged s (ReqUpsert pid u v) (exec (k r) w'))"
| "exec (SelectRatings s pid k) w =
     (case answer (select_ratings pid) w of (r, w') \<Rightarrow>
        logged s (ReqSelectRatings pid) (exec (k r) w'))"
| "exec (UpdateRating s pid v k) w =
     (case answer (update_rating pid v) w of (r, w') \<Rightarrow>
        logged s (ReqUpdateRating pid v) (exec (k r) w'))"
| "exec (AddToCart s p k) w =
     (case answer (add_to_cart p) w of (r, w') \<Rightarrow>
        logged s (ReqAddToCart p) (exec (k r) w'))"
| "exec (WriteText s x k) w =
     (case answer (write_text x) w of (r, w') \<Rightarrow>
        logged s (ReqWriteText x) (exec (k r) w'))"

definition final :: "'s \<times> world \<times> ('s \<times> request) list \<Rightarrow> 's" where
  "final res = fst res"

definition service :: "'s \<times> world \<times> ('s \<times> request) list \<Rightarrow> world" where
  "service res = fst (snd res)"

definition calls :: "'s \<times> world \<times> ('s \<times> request) list \<Rightarrow> request list" where
  "calls res = map snd (snd (snd res))"

definition snapshots :: "'s \<times> world \<times> ('s \<times> request) list \<Rightarrow> 's list" where
  "snapshots res = map fst (snd (snd res))"

text \<open>
  Independently of the service: the states a handler can end in, and the calls it can
  issue (with the state at that moment), over all answers its calls may receive.
\<close>

primrec leaves :: "'s prog \<Rightarrow> 's set" where
  "leaves (Done s) = {s}"
| "leaves (SelectProduct s pid k) = (\<Union>r. leaves (k r))"
| "leaves (SelectImages s pid k) = (\<Union>r. leaves (k r))"
| "leaves (SelectUserRatings s pid u k) = (\<Union>r. leaves (k r))"
| "leaves (Upsert s pid u v k) = (\<Union>r. leaves (k r))"
| "leaves (SelectRatings s pid k) = (\<Union>r. leaves (k r))"
| "leaves (UpdateRating s pid v k) = (\<Union>r. leaves (k r))"
| "leaves (AddToCart s p k) = (\<Union>r. leaves (k r))"
| "leaves (WriteText s x k) = (\<Union>r. leaves (k r))"

primrec awaits :: "'s prog \<Rightarrow> ('s \<times> request) set" where
  "awaits (Done s) = {}"
| "awaits (SelectProduct s pid k) = insert (s, ReqSelectProduct pid) (\<Union>r. awaits (k r))"
| "awaits (SelectImages s pid k) = insert (s, ReqSelectImages pid) (\<Union>r. awaits (k r))"
| "awaits (SelectUserRatings s pid u k) =
     insert (s, ReqSelectUserRatings pid u) (\<Union>r. awaits (k r))"
| "awaits (Upsert s pid u v k) = insert (s, ReqUpsert pid u v) (\<Union>r. awaits (k r))"
| "awaits (SelectRatings s pid k) = insert (s, ReqSelectRatings pid) (\<Union>r. awaits (k r))"
| "awaits (UpdateRating s pid v k) = insert (s, ReqUpdateRating pid v) (\<Union>r. awaits (k r))"
| "awaits (AddToCart s p k) = insert (s, ReqAddToCart p) (\<Union>r. awaits (k r))"
| "awaits (WriteText s x k) = insert (s, ReqWriteText x) (\<Union>r. awaits (k r))"

section \<open>The browser\<close>

text \<open>
  The library functions of the browser whose results depend on its locale and time zone
  are parameters: \<open>Intl.NumberFormat(locale, {style, currency}).format\<close>, the composition
  \<open>new Date(s).getTime()\<close> (\<open>None\<close> for \<open>NaN\<close>), \<open>new Date(s).toLocaleDateString()\<close>,
  \<open>Number.prototype.toLocaleString\<close> and the serialisation \<open>innerHTML\<close>.
\<close>

datatype node = Text string | Element string "(string \<times> string) list" "node list"

record env =
  Intl_NumberFormat :: "string \<Rightarrow> string \<Rightarrow> string \<Rightarrow> rat \<Rightarrow> string"
  Date_getTime :: "string \<Rightarrow> int option"
  toLocaleDateString :: "string \<Rightarrow> string"
  toLocaleString :: "rat \<Rightarrow> string"
  innerHTML :: "node list \<Rightarrow> string"

section \<open>ProductDetails\<close>

text \<open>\<open>product.rating || 5\<close> and \<open>hoverRating || rating\<close>: zero and the absent value are falsy.\<close>

definition rating_or_5 :: "rat option \<Rightarrow> rat" where
  "rating_or_5 r = (case r of None \<Rightarrow> 5 | Some x \<Rightarrow> if x = 0 then 5 else x)"

definition js_or :: "rat \<Rightarrow> rat \<Rightarrow> rat" where
  "js_or a b = (if a = 0 then b else a)"

text \<open>An optional string inside a template literal or a filter.\<close>

definition template :: "string option \<Rightarrow> string" where
  "template x = (case x of None \<Rightarrow> ''undefined'' | Some s \<Rightarrow> s)"

definition fetch_catch :: "string \<Rightarrow> details \<Rightarrow> details" where
  "fetch_catch e st = console_error (''Error fetching product details: '' @ e) st"

definition fetch_finally :: "details \<Rightarrow> details" where
  "fetch_finally st = st\<lparr>loading := False\<rparr>"

definition fetchProductDetails :: "details \<Rightarrow> details prog" where
  "fetchProductDetails st0 =
     (let st = st0\<lparr>loading := True\<rparr>; pid = template (productId st0) in
      SelectProduct st pid (\<lambda>r.
        case r of
          Rejected e \<Rightarrow> Done (fetch_finally (fetch_catch e st))
        | Resolved d (Some e) \<Rightarrow> Done (fetch_finally (fetch_catch e st))
        | Resolved None None \<Rightarrow>
            Done (fetch_finally (fetch_catch ''TypeError'' (st\<lparr>product := None\<rparr>)))
        | Resolved (Some productData) None \<Rightarrow>
            (let st1 = st\<lparr>product := Some productData,
                          rating := rating_or_5 (p_rating productData)\<rparr> in
             SelectImages st1 pid (\<lambda>r2.
               case r2 of
                 Rejected e \<Rightarrow> Done (fetch_finally (fetch_catch e st1))
               | Resolved d (Some e) \<Rightarrow> Done (fetch_finally (fetch_catch e st1))
               | Resolved imagesData None \<Rightarrow>
                   (let st2 = st1\<lparr>productImages :=
                                p_image productData #
                                  (case imagesData of None \<Rightarrow> [] | Some urls \<Rightarrow> urls)\<rparr> in
                    case user st2 of
                      None \<Rightarrow> Done (fetch_finally st2)
                    | Some u \<Rightarrow>
                        SelectUserRatings st2 pid (uid u) (\<lambda>r3.
                          case r3 of
                            Rejected e \<Rightarrow> Done (fetch_finally (fetch_catch e st2))
                          | Resolved (Some (x # xs)) None \<Rightarrow>
                              Done (fetch_finally (st2\<lparr>hasRated := True, rating := x\<rparr>))
                          | Resolved d e \<Rightarrow> Done (fetch_finally st2)))))))"

text \<open>The effect on \<open>productId\<close>: the fetch starts only for a truthy id.\<close>

definition useEffect_productId :: "details \<Rightarrow> details prog" where
  "useEffect_productId st =
     (case productId st of
        None \<Rightarrow> Done st
      | Some pid \<Rightarrow> if pid = [] then Done st else fetchProductDetails st)"

definition ProductDetails_handleAddToCart :: "details \<Rightarrow> details prog" where
  "ProductDetails_handleAddToCart st =
     (case product st of
        None \<Rightarrow> Done st
      | Some p \<Rightarrow>
          if \<not> isLoggedIn st then Done (st\<lparr>location_href := ''/login''\<rparr>)
          else AddToCart st p (\<lambda>r.
            case r of
              Rejected e \<Rightarrow>
                Done (showNotification ''Failed to add product to cart. Please try again.'' error
                        (console_error (''Error adding to cart: '' @ e) st))
            | Resolved d e \<Rightarrow> Done (showNotification ''Product added to cart!'' success st)))"

definition ProductDetails_getProductLink :: "details \<Rightarrow> string" where
  "ProductDetails_getProductLink st =
     ''https://ulishastore.netlify.app/product/'' @ template (productId st)"

definition copied :: "'a ui_scheme \<Rightarrow> 'a ui_scheme" where
  "copied st =
     (let st1 = showNotification ''Link copied to clipboard!'' success (st\<lparr>linkCopied := True\<rparr>)
      in st1\<lparr>timers := timers st1 @ [(2000, ResetLinkCopied)]\<rparr>)"

definition copy_failed :: "string \<Rightarrow> 'a ui_scheme \<Rightarrow> 'a ui_scheme" where
  "copy_failed e st =
     showNotification ''Failed to copy link'' error
       (console_error (''Failed to copy link: '' @ e) st)"

definition ProductDetails_copyToClipboard :: "details \<Rightarrow> details prog" where
  "ProductDetails_copyToClipboard st =
     WriteText st (ProductDetails_getProductLink st) (\<lambda>r.
       case r of
         Resolved d e \<Rightarrow> Done (copied st)
       | Rejected e \<Rightarrow> Done (copy_failed e st))"

text \<open>
  \<open>ratings.reduce((sum, item) => sum + item.rating, 0) / ratings.length\<close>, computed only
  for a non-empty list.
\<close>

definition avgRating :: "rat list \<Rightarrow> rat" where
  "avgRating ratings =
     js_div (foldl (\<lambda>sum item. js_add sum item) 0 ratings) (of_nat (length ratings))"

definition rating_catch :: "string \<Rightarrow> details \<Rightarrow> details" where
  "rating_catch e st =
     showNotification ''Failed to submit rating. Please try again.'' error
       (console_error (''Error rating product: '' @ e) st)"

definition handleRating :: "rat \<Rightarrow> details \<Rightarrow> details prog" where
  "handleRating v st =
     (case (user st, product st) of
        (Some u, Some p) \<Rightarrow>
          Upsert st (p_id p) (uid u) v (\<lambda>r.
            case r of
              Rejected e \<Rightarrow> Done (rating_catch e st)
            | Resolved d (Some e) \<Rightarrow> Done (rating_catch e st)
            | Resolved d None \<Rightarrow>
                (let st1 = showNotification ''Thank you for rating this product!'' success
                             (st\<lparr>rating := v, hasRated := True\<rparr>) in
                 SelectRatings st1 (p_id p) (\<lambda>r2.
                   case r2 of
                     Rejected e \<Rightarrow> Done (rating_catch e st1)
                   | Resolved d (Some e) \<Rightarrow> Done (rating_catch e st1)
                   | Resolved None None \<Rightarrow> Done st1
                   | Resolved (Some ratings) None \<Rightarrow>
                       if ratings = [] then Done st1
                       else UpdateRating st1 (p_id p) (avgRating ratings) (\<lambda>r3.
                              case r3 of
                                Rejected e \<Rightarrow> Done (rating_catch e st1)
                              | Resolved d e \<Rightarrow> Done st1))))
      | _ \<Rightarrow> Done (st\<lparr>location_href := ''/login''\<rparr>))"

text \<open>What the component returns: the spinner, the not-found view, or the product page.\<close>

datatype view =
    Spinner
  | NotFound
  | ProductView (stars: "bool list") (caption: string) (price_text: string) (link_text: string)

definition ProductDetails_render :: "env \<Rightarrow> details \<Rightarrow> view" where
  "ProductDetails_render E st =
     (if loading st then Spinner
      else case product st of
        None \<Rightarrow> NotFound
      | Some p \<Rightarrow>
          ProductView
            (map (\<lambda>i. js_or (hoverRating st) (rating st) > of_nat i) [0..<5])
            (if hasRated st then ''Thanks for rating!'' else ''Click to rate'')
            (Intl_NumberFormat E ''en-NG'' ''currency'' ''NGN'' (p_price p))
            (ProductDetails_getProductLink st))"

section \<open>ProductCard\<close>

definition ProductCard_formattedPrice :: "env \<Rightarrow> Product \<Rightarrow> string" where
  "ProductCard_formattedPrice E p =
     Intl_NumberFormat E ''en-NG'' ''currency'' ''NGN'' (p_price p)"

definition ProductCard_handleAddToCart :: "Product \<Rightarrow> card \<Rightarrow> card prog" where
  "ProductCard_handleAddToCart p st =
     (if \<not> isLoggedIn st then Done (st\<lparr>navigated := navigated st @ [''/login'']\<rparr>)
      else AddToCart st p (\<lambda>r.
        case r of
          Rejected e \<Rightarrow>
            Done (showNotification ''Failed to add product to cart. Please try again.'' error
                    (console_error (''Error adding to cart: '' @ e) st))
        | Resolved d e \<Rightarrow> Done (showNotification ''Product added to cart!'' success st)))"

definition ProductCard_getProductLink :: "Product \<Rightarrow> string" where
  "ProductCard_getProductLink p =
     ''https://ulishastore.netlify.app/product/'' @ p_id p"

definition ProductCard_copyToClipboard :: "Product \<Rightarrow> card \<Rightarrow> card prog" where
  "ProductCard_copyToClipboard p st =
     WriteText st (ProductCard_getProductLink p) (\<lambda>r.
       case r of
         Resolved d e \<Rightarrow> Done (copied st)
       | Rejected e \<Rightarrow> Done (copy_failed e st))"

definition ProductCard_stars :: "Product \<Rightarrow> bool list" where
  "ProductCard_stars p =
     map (\<lambda>i. rating_or_5 (p_rating p) > of_nat i) [0..<5]"

definition ProductCard_render :: "env \<Rightarrow> Product \<Rightarrow> card \<Rightarrow> view" where
  "ProductCard_render E p st =
     ProductView (ProductCard_stars p) []
       (ProductCard_formattedPrice E p) (ProductCard_getProductLink p)"

section \<open>OrderReceipt\<close>



















section \<open>Sample data\<close>

text \<open>A small shop, a page opened on its product, and a browser, for concrete runs.\<close>

definition sample_product :: Product where
  "sample_product =
     \<lparr>p_id = ''p1'', p_name = ''Lamp'', p_price = 2500, p_image = ''main.png'',
      p_rating = None\<rparr>"

definition sample_world :: world where
  "sample_world =
     \<lparr>products = [sample_product],
      product_images = [(''p1'', ''a.png'')],
      product_ratings =
        [\<lparr>r_product_id = ''p1'', r_user_id = ''u1'', r_rating = 4\<rparr>,
         \<lparr>r_product_id = ''p1'', r_user_id = ''u2'', r_rating = 3\<rparr>,
         \<lparr>r_product_id = ''p2'', r_user_id = ''u2'', r_rating = 1\<rparr>],
      cart = [], clipboard = [], faults = []\<rparr>"

definition sample_world_thirds :: world where
  "sample_world_thirds =
     sample_world
       \<lparr>product_ratings :=
          [\<lparr>r_product_id = ''p1'', r_user_id = ''u1'', r_rating = 1\<rparr>,
           \<lparr>r_product_id = ''p1'', r_user_id = ''u2'', r_rating = 5\<rparr>,
           \<lparr>r_product_id = ''p1'', r_user_id = ''u3'', r_rating = 2\<rparr>]\<rparr>"

definition sample_page :: details where
  "sample_page =
     \<lparr>user = Some \<lparr>uid = ''u2''\<rparr>, linkCopied = False, location_href = ''/product/p1'',
      navigated = [], body = [], fading = [], removed = [], timers = [], console = [],
      productId = Some ''p1'', loading = True, product = None, productImages = [],
      currentImageIndex = Some 0, rating = 0, hoverRating = 0, hasRated = False\<rparr>"

definition sample_loaded :: details where
  "sample_loaded =
     sample_page\<lparr>loading := False, product := Some sample_product,
                 productImages := [''main.png'', ''a.png'', ''b.png''],
                 currentImageIndex := Some 2, rating := 3, hasRated := True\<rparr>"

definition sample_card :: card where
  "sample_card =
     \<lparr>user = None, linkCopied = False, location_href = ''/'', navigated = [], body = [],
      fading = [], removed = [], timers = [], console = [], showShareOptions = True\<rparr>"

definition sample_env :: env where
  "sample_env =
     \<lparr>Intl_NumberFormat = (\<lambda>locale style currency x. currency @ '' 2,500.00''),
      Date_getTime = (\<lambda>s. if s = ''2023-11-14T22:13:32.345Z'' then Some 1700000012345 else None),
      toLocaleDateString = (\<lambda>s. take 10 s),
      toLocaleString = (\<lambda>x. ''2,500''),
      innerHTML = (\<lambda>nodes. concat (map (\<lambda>n. case n of Text t \<Rightarrow> t | Element tag _ _ \<Rightarrow> tag) nodes))\<rparr>"


section \<open>Properties\<close>

subsection \<open>Runs against the service\<close>

lemma final_logged [simp]: "final (logged s q res) = final res"
  by (cases res) (simp add: final_def logged_def)

lemma exec_leaves: "final (exec p w) \<in> leaves p"
proof (induction p arbitrary: w)
  case (Done s)
  show ?case by (simp add: final_def)
qed (fastforce split: prod.splits)+

lemma snd_logged [simp]: "snd (snd (logged s q res)) = (s, q) # snd (snd res)"
  by (cases res) (simp add: logged_def)

lemma exec_awaits: "set (snd (snd (exec p w))) \<subseteq> awaits p"
proof (induction p arbitrary: w)
  case (Done s)
  show ?case by simp
qed (fastforce split: prod.splits)+

lemma upsert_has_row:
  "\<lparr>r_product_id = pid, r_user_id = u, r_rating = v\<rparr> \<in> set (product_ratings (snd (upsert pid u v w)))"
proof (cases "\<exists>r \<in> set (product_ratings w). r_product_id r = pid \<and> r_user_id r = u")
  case True
  then obtain r where r: "r \<in> set (product_ratings w)" "r_product_id r = pid" "r_user_id r = u"
    by blast
  let ?f = "\<lambda>r. if r_product_id r = pid \<and> r_user_id r = u then r\<lparr>r_rating := v\<rparr> else r"
  have "?f r = \<lparr>r_product_id = pid, r_user_id = u, r_rating = v\<rparr>"
    using r(2,3) by (cases r) simp
  then have "\<lparr>r_product_id = pid, r_user_id = u, r_rating = v\<rparr> \<in> ?f ` set (product_ratings w)"
    using r(1) by (rule image_eqI [OF sym])
  moreover have "product_ratings (snd (upsert pid u v w)) = map ?f (product_ratings w)"
    using True by (simp add: upsert_def)
  ultimately show ?thesis
    by (simp only: set_map)
next
  case False
  then have "product_ratings (snd (upsert pid u v w))
               = product_ratings w @ [\<lparr>r_product_id = pid, r_user_id = u, r_rating = v\<rparr>]"
    unfolding upsert_def by (simp only: if_False snd_conv) simp
  then show ?thesis by simp
qed

lemma upsert_rated: "v \<in> set (ratings_of pid (snd (upsert pid u v w)))"
proof -
  let ?row = "\<lparr>r_product_id = pid, r_user_id = u, r_rating = v\<rparr>"
  have "?row \<in> set (filter (\<lambda>r. r_product_id r = pid) (product_ratings (snd (upsert pid u v w))))"
    using upsert_has_row [of pid u v w] by simp
  then have "r_rating ?row \<in> r_rating ` set (filter (\<lambda>r. r_product_id r = pid) (product_ratings (snd (upsert pid u v w))))"
    by (rule imageI)
  then show ?thesis
    by (simp add: ratings_of_def)
qed

lemma answer_Nil: "faults w = [] \<Longrightarrow> answer serve w = serve w"
  by (simp add: answer_def)

lemma answer_NoFault: "faults w = NoFault # fs \<Longrightarrow> answer serve w = serve (w\<lparr>faults := fs\<rparr>)"
  by (simp add: answer_def)

lemma answer_ErrorResult:
  "faults w = ErrorResult e # fs \<Longrightarrow> answer serve w = (Resolved None (Some e), w\<lparr>faults := fs\<rparr>)"
  by (simp add: answer_def)

lemma answer_Rejection:
  "faults w = Rejection e # fs \<Longrightarrow> answer serve w = (Rejected e, w\<lparr>faults := fs\<rparr>)"
  by (simp add: answer_def)

lemma answer_cases:
  obtains (served) w' where "answer serve w = serve w'" "w' = w\<lparr>faults := tl (faults w)\<rparr>"
  | (err) e where "answer serve w = (Resolved None (Some e), w\<lparr>faults := tl (faults w)\<rparr>)"
  | (rej) e where "answer serve w = (Rejected e, w\<lparr>faults := tl (faults w)\<rparr>)"
proof (cases "faults w")
  case Nil
  then have "w\<lparr>faults := tl (faults w)\<rparr> = w" by (cases w) simp
  then show ?thesis using served [of w] answer_Nil [OF Nil, of serve] by simp
next
  case (Cons f fs)
  show ?thesis
  proof (cases f)
    case NoFault
    then show ?thesis using served answer_NoFault [of w fs serve] Cons by simp
  next
    case (ErrorResult e)
    then show ?thesis using err answer_ErrorResult [of w e fs serve] Cons by simp
  next
    case (Rejection e)
    then show ?thesis using rej answer_Rejection [of w e fs serve] Cons by simp
  qed
qed


lemma ratings_of_faults [simp]: "ratings_of pid (w\<lparr>faults := fs\<rparr>) = ratings_of pid w"
  by (simp add: ratings_of_def)

lemma ratings_of_update_rating [simp]:
  "ratings_of pid (snd (update_rating pid' r w)) = ratings_of pid w"
  by (simp add: ratings_of_def update_rating_def)

lemma products_faults [simp]: "products (w\<lparr>faults := fs\<rparr>) = products w"
  by simp

lemma fst_upsert [simp]: "fst (upsert pid u v w) = Resolved None None"
  by (simp add: upsert_def)

lemma fst_update_rating [simp]: "fst (update_rating pid r w) = Resolved None None"
  by (simp add: update_rating_def)

lemma faults_upsert [simp]: "faults (snd (upsert pid u v w)) = faults w"
  by (simp add: upsert_def)

lemma faults_update_rating [simp]: "faults (snd (update_rating pid r w)) = faults w"
  by (simp add: update_rating_def)


lemma update_rating_written:
  assumes "q \<in> set (products (snd (update_rating pid r w)))" and "p_id q = pid"
  shows "p_rating q = Some r"
proof -
  let ?f = "\<lambda>p. if p_id p = pid then p\<lparr>p_rating := Some r\<rparr> else p"
  have "products (snd (update_rating pid r w)) = map ?f (products w)"
    by (simp add: update_rating_def)
  with assms(1) have "q \<in> ?f ` set (products w)"
    by (simp only: set_map)
  then obtain x where x: "q = ?f x"
    by (rule imageE)
  show ?thesis
  proof (cases "p_id x = pid")
    case True
    with x show ?thesis by simp
  next
    case False
    with x have "q = x" by simp
    with False assms(2) show ?thesis by simp
  qed
qed

lemma calls_logged [simp]: "calls (logged s q res) = q # calls res"
  by (cases res) (simp add: calls_def logged_def)

lemma service_logged [simp]: "service (logged s q res) = service res"
  by (cases res) (simp add: service_def logged_def)

lemma calls_triple [simp]: "calls (s, w, t) = map snd t"
  by (simp add: calls_def)

lemma service_triple [simp]: "service (s, w, t) = w"
  by (simp add: service_def)

lemma final_triple [simp]: "final (s, w, t) = s"
  by (simp add: final_def)

lemma snapshots_triple [simp]: "snapshots (s, w, t) = map fst t"
  by (simp add: snapshots_def)

lemma snapshots_logged [simp]: "snapshots (logged s q res) = s # snapshots res"
  by (cases res) (simp add: snapshots_def logged_def)

lemma upsert_pair: "upsert pid u v w = (Resolved None None, snd (upsert pid u v w))"
  by (simp add: upsert_def)

lemma ratings_of_answer_update [simp]:
  "ratings_of pid (snd (answer (update_rating pid' r) w)) = ratings_of pid w"
  by (cases rule: answer_cases [of "update_rating pid' r" w]) simp_all

lemma handleRating_shape:
  assumes "user st = Some u" and "product st = Some p"
  obtains k1 k2 k3 st1 where
    "handleRating v st = Upsert st (p_id p) (uid u) v k1"
    and "\<And>e. k1 (Rejected e) = Done (rating_catch e st)"
    and "\<And>d e. k1 (Resolved d (Some e)) = Done (rating_catch e st)"
    and "\<And>d. k1 (Resolved d None) = SelectRatings st1 (p_id p) k2"
    and "st1 = showNotification ''Thank you for rating this product!'' success
                 (st\<lparr>rating := v, hasRated := True\<rparr>)"
    and "\<And>e. k2 (Rejected e) = Done (rating_catch e st1)"
    and "\<And>d e. k2 (Resolved d (Some e)) = Done (rating_catch e st1)"
    and "k2 (Resolved None None) = Done st1"
    and "k2 (Resolved (Some []) None) = Done st1"
    and "\<And>rs. rs \<noteq> [] \<Longrightarrow>
           k2 (Resolved (Some rs) None) = UpdateRating st1 (p_id p) (avgRating rs) k3"
    and "\<And>e. k3 (Rejected e) = Done (rating_catch e st1)"
    and "\<And>d e. k3 (Resolved d e) = Done st1"
proof -
  define st1 where "st1 = showNotification ''Thank you for rating this product!'' success
                 (st\<lparr>rating := v, hasRated := True\<rparr>)"
  define k3 :: "unit response \<Rightarrow> details prog" where
    "k3 = (\<lambda>r3. case r3 of Rejected e \<Rightarrow> Done (rating_catch e st1) | Resolved d e \<Rightarrow> Done st1)"
  define k2 :: "rat list response \<Rightarrow> details prog" where
    "k2 = (\<lambda>r2. case r2 of
                     Rejected e \<Rightarrow> Done (rating_catch e st1)
                   | Resolved d (Some e) \<Rightarrow> Done (rating_catch e st1)
                   | Resolved None None \<Rightarrow> Done st1
                   | Resolved (Some ratings) None \<Rightarrow>
                       if ratings = [] then Done st1
                       else UpdateRating st1 (p_id p) (avgRating ratings) k3)"
  define k1 :: "unit response \<Rightarrow> details prog" where
    "k1 = (\<lambda>r. case r of
              Rejected e \<Rightarrow> Done (rating_catch e st)
            | Resolved d (Some e) \<Rightarrow> Done (rating_catch e st)
            | Resolved d None \<Rightarrow> SelectRatings st1 (p_id p) k2)"
  have "handleRating v st = Upsert st (p_id p) (uid u) v k1"
    by (simp only: handleRating_def k1_def k2_def k3_def st1_def Let_def assms
          prod.case option.case)
  then show ?thesis
  proof (rule that [of k1 st1 k2 k3])
    show "st1 = showNotification ''Thank you for rating this product!'' success
                 (st\<lparr>rating := v, hasRated := True\<rparr>)"
      by (rule st1_def)
    show "\<And>rs. rs \<noteq> [] \<Longrightarrow>
           k2 (Resolved (Some rs) None) = UpdateRating st1 (p_id p) (avgRating rs) k3"
      by (simp add: k2_def)
    show "\<And>d e. k2 (Resolved d (Some e)) = Done (rating_catch e st1)"
      by (simp add: k2_def split: option.splits)
    show "\<And>e. k1 (Rejected e) = Done (rating_catch e st)"
      by (simp add: k1_def)
    show "\<And>d e. k1 (Resolved d (Some e)) = Done (rating_catch e st)"
      by (simp add: k1_def)
    show "\<And>d. k1 (Resolved d None) = SelectRatings st1 (p_id p) k2"
      by (simp add: k1_def)
    show "\<And>e. k2 (Rejected e) = Done (rating_catch e st1)"
      by (simp add: k2_def)
    show "k2 (Resolved None None) = Done st1"
      by (simp add: k2_def)
    show "k2 (Resolved (Some []) None) = Done st1"
      by (simp add: k2_def)
    show "\<And>e. k3 (Rejected e) = Done (rating_catch e st1)"
      by (simp add: k3_def)
    show "\<And>d e. k3 (Resolved d e) = Done st1"
      by (simp add: k3_def)
  qed
qed

lemma handleRating_run:
  assumes u: "user st = Some u" and p: "product st = Some p"
  obtains
    (upsert_failed) "calls (exec (handleRating v st) w) = [ReqUpsert (p_id p) (uid u) v]"
      and "faults w \<noteq> []"
  | (select_failed)
      "calls (exec (handleRating v st) w)
         = [ReqUpsert (p_id p) (uid u) v, ReqSelectRatings (p_id p)]"
      and "faults w \<noteq> []"
  | (written)
      "calls (exec (handleRating v st) w)
         = [ReqUpsert (p_id p) (uid u) v, ReqSelectRatings (p_id p),
            ReqUpdateRating (p_id p)
              (avgRating (ratings_of (p_id p) (service (exec (handleRating v st) w))))]"
      and "v \<in> set (ratings_of (p_id p) (service (exec (handleRating v st) w)))"
      and "\<And>q. faults w = [] \<Longrightarrow> q \<in> set (products (service (exec (handleRating v st) w)))
             \<Longrightarrow> p_id q = p_id p
             \<Longrightarrow> p_rating q
                   = Some (avgRating (ratings_of (p_id p) (service (exec (handleRating v st) w))))"
proof -
  from handleRating_shape [OF u p, of v] obtain k1 k2 k3 st1 where
    h: "handleRating v st = Upsert st (p_id p) (uid u) v k1"
    and k1: "\<And>e. k1 (Rejected e) = Done (rating_catch e st)"
       "\<And>d e. k1 (Resolved d (Some e)) = Done (rating_catch e st)"
       "\<And>d. k1 (Resolved d None) = SelectRatings st1 (p_id p) k2"
    and k2: "\<And>e. k2 (Rejected e) = Done (rating_catch e st1)"
       "\<And>d e. k2 (Resolved d (Some e)) = Done (rating_catch e st1)"
    and k2u: "\<And>rs. rs \<noteq> [] \<Longrightarrow>
           k2 (Resolved (Some rs) None) = UpdateRating st1 (p_id p) (avgRating rs) k3"
    and k3: "\<And>e. k3 (Rejected e) = Done (rating_catch e st1)"
       "\<And>d e. k3 (Resolved d e) = Done st1"
    by metis
  let ?pid = "p_id p" and ?u = "uid u"
  have k3_done: "\<exists>s. k3 r = Done s" for r
    by (cases r) (simp_all add: k3)
  show ?thesis
  proof (cases rule: answer_cases [of "upsert ?pid ?u v" w])
    case (err e)
    then have "calls (exec (handleRating v st) w) = [ReqUpsert ?pid ?u v]"
      by (simp add: h k1)
    moreover have "faults w \<noteq> []"
      using err by (auto simp: answer_def upsert_def)
    ultimately show ?thesis by (rule upsert_failed)
  next
    case (rej e)
    then have "calls (exec (handleRating v st) w) = [ReqUpsert ?pid ?u v]"
      by (simp add: h k1)
    moreover have "faults w \<noteq> []"
      using rej by (auto simp: answer_def upsert_def)
    ultimately show ?thesis by (rule upsert_failed)
  next
    case (served w')
    note w' = served(2)
    define w1 where "w1 = snd (upsert ?pid ?u v w')"
    have a1: "answer (upsert ?pid ?u v) w = (Resolved None None, w1)"
      using served(1) upsert_pair [of ?pid ?u v w'] by (simp add: w1_def)
    have v1: "v \<in> set (ratings_of ?pid w1)"
      unfolding w1_def by (rule upsert_rated)
    have e1: "exec (handleRating v st) w
                = logged st (ReqUpsert ?pid ?u v) (exec (SelectRatings st1 ?pid k2) w1)"
      by (simp add: h a1 k1)
    show ?thesis
    proof (cases rule: answer_cases [of "select_ratings ?pid" w1])
      case (err e)
      then have "calls (exec (handleRating v st) w) = [ReqUpsert ?pid ?u v, ReqSelectRatings ?pid]"
        by (simp add: e1 k2)
      moreover have "faults w1 \<noteq> []"
        using err by (auto simp: answer_def select_ratings_def)
      then have "faults w \<noteq> []"
        by (auto simp: w1_def served(2))
      ultimately show ?thesis by (rule select_failed)
    next
      case (rej e)
      then have "calls (exec (handleRating v st) w) = [ReqUpsert ?pid ?u v, ReqSelectRatings ?pid]"
        by (simp add: e1 k2)
      moreover have "faults w1 \<noteq> []"
        using rej by (auto simp: answer_def select_ratings_def)
      then have "faults w \<noteq> []"
        by (auto simp: w1_def served(2))
      ultimately show ?thesis by (rule select_failed)
    next
      case (served w2)
      let ?rs = "ratings_of ?pid w1"
      have rs: "ratings_of ?pid w2 = ?rs"
        by (simp add: served(2))
      have ne: "?rs \<noteq> []"
        using v1 by auto
      have a2: "answer (select_ratings ?pid) w1 = (Resolved (Some ?rs) None, w2)"
        using served(1) rs by (simp add: select_ratings_def)
      obtain r3 w3 where a3: "answer (update_rating ?pid (avgRating ?rs)) w2 = (r3, w3)"
        by (cases "answer (update_rating ?pid (avgRating ?rs)) w2")
      obtain s3 where s3: "k3 r3 = Done s3"
        using k3_done by blast
      have rs3: "ratings_of ?pid w3 = ?rs"
        using ratings_of_answer_update [of ?pid ?pid "avgRating ?rs" w2] a3 rs by simp
      have e2: "exec (handleRating v st) w
                  = logged st (ReqUpsert ?pid ?u v)
                      (logged st1 (ReqSelectRatings ?pid)
                         (logged st1 (ReqUpdateRating ?pid (avgRating ?rs)) (s3, w3, [])))"
        by (simp add: e1 a2 k2u [OF ne] a3 s3)
      have sv: "service (exec (handleRating v st) w) = w3"
        by (simp add: e2)
      have "calls (exec (handleRating v st) w)
              = [ReqUpsert ?pid ?u v, ReqSelectRatings ?pid,
                 ReqUpdateRating ?pid
                   (avgRating (ratings_of ?pid (service (exec (handleRating v st) w))))]"
        by (simp add: sv rs3) (simp add: e2)
      moreover have "v \<in> set (ratings_of ?pid (service (exec (handleRating v st) w)))"
        using v1 by (simp add: sv rs3)
      moreover have "p_rating q
           = Some (avgRating (ratings_of ?pid (service (exec (handleRating v st) w))))"
        if nf: "faults w = []" and q: "q \<in> set (products (service (exec (handleRating v st) w)))"
          and id: "p_id q = ?pid" for q
      proof -
        have "faults w2 = []"
          by (simp add: served(2) w1_def w' nf)
        then have "answer (update_rating ?pid (avgRating ?rs)) w2
                     = update_rating ?pid (avgRating ?rs) w2"
          by (rule answer_Nil)
        with a3 have "w3 = snd (update_rating ?pid (avgRating ?rs) w2)"
          by simp
        with q have "q \<in> set (products (snd (update_rating ?pid (avgRating ?rs) w2)))"
          by (simp add: sv)
        then have "p_rating q = Some (avgRating ?rs)"
          using id by (rule update_rating_written)
        then show ?thesis
          by (simp add: sv rs3)
      qed
      ultimately show ?thesis
        by (rule written)
    qed
  qed
qed


subsection \<open>The image gallery\<close>

lemma js_rem_nonneg: "0 \<le> a \<Longrightarrow> 0 < b \<Longrightarrow> js_rem a b = Some (a mod b)"
  by (cases "a = 0") (simp_all add: js_rem_def)

text \<open>
  Claim C8. With a non-empty image list of length \<open>n\<close> and a current index \<open>i\<close>,
  \<open>0 \<le> i < n\<close>: \<open>nextImage\<close> sets the index to \<open>(i + 1) mod n\<close>, \<open>prevImage\<close> sets it to
  \<open>(i - 1 + n) mod n\<close>, both lie in \<open>[0, n)\<close>, and \<open>prevImage\<close> after \<open>nextImage\<close>, as
  \<open>nextImage\<close> after \<open>prevImage\<close>, gives back \<open>i\<close>.
\<close>

theorem gallery_cycle:
  assumes "productImages st \<noteq> []"
    and "currentImageIndex st = Some i"
    and "0 \<le> i" and "i < int (length (productImages st))"
  shows "currentImageIndex (nextImage st) = Some ((i + 1) mod int (length (productImages st)))
       \<and> currentImageIndex (prevImage st)
           = Some ((i - 1 + int (length (productImages st))) mod int (length (productImages st)))
       \<and> 0 \<le> (i + 1) mod int (length (productImages st))
       \<and> (i + 1) mod int (length (productImages st)) < int (length (productImages st))
       \<and> 0 \<le> (i - 1 + int (length (productImages st))) mod int (length (productImages st))
       \<and> (i - 1 + int (length (productImages st))) mod int (length (productImages st))
           < int (length (productImages st))
       \<and> currentImageIndex (prevImage (nextImage st)) = Some i
       \<and> currentImageIndex (nextImage (prevImage st)) = Some i"
proof -
  define n where "n = int (length (productImages st))"
  have n: "0 < n" using assms(1) by (simp add: n_def)
  have i: "0 \<le> i" "i < n" using assms(3,4) by (simp_all add: n_def)
  have nx: "currentImageIndex (nextImage st) = Some ((i + 1) mod n)"
    using i n assms(2) by (simp add: nextImage_def js_rem_nonneg n_def)
  have pv: "currentImageIndex (prevImage st) = Some ((i - 1 + n) mod n)"
    using i n assms(2) by (simp add: prevImage_def js_rem_nonneg n_def)
  have len1: "productImages (nextImage st) = productImages st"
    by (simp add: nextImage_def)
  have len2: "productImages (prevImage st) = productImages st"
    by (simp add: prevImage_def)
  have b1: "0 \<le> (i + 1) mod n" "(i + 1) mod n < n" using n by simp_all
  have b2: "0 \<le> (i - 1 + n) mod n" "(i - 1 + n) mod n < n" using n by simp_all
  have r1: "((i + 1) mod n - 1 + n) mod n = i"
  proof -
    have "((i + 1) mod n - 1 + n) mod n = ((i + 1) mod n + (n - 1)) mod n"
      by (simp add: algebra_simps)
    also have "\<dots> = (i + 1 + (n - 1)) mod n" by (simp add: mod_add_left_eq)
    also have "\<dots> = i mod n" by (simp add: algebra_simps)
    also have "\<dots> = i" using i by simp
    finally show ?thesis .
  qed
  have r2: "((i - 1 + n) mod n + 1) mod n = i"
  proof -
    have "((i - 1 + n) mod n + 1) mod n = (i - 1 + n + 1) mod n"
      by (simp add: mod_add_left_eq)
    also have "\<dots> = i mod n" by (simp add: algebra_simps)
    also have "\<dots> = i" using i by simp
    finally show ?thesis .
  qed
  have "0 \<le> (i + 1) mod n - 1 + n"
    using b1(1) n by linarith
  then have "js_rem ((i + 1) mod n - 1 + n) n = Some (((i + 1) mod n - 1 + n) mod n)"
    using n by (rule js_rem_nonneg)
  then have "js_rem ((i + 1) mod n - 1 + n) n = Some i"
    by (simp only: r1)
  then have pn: "currentImageIndex (prevImage (nextImage st)) = Some i"
    using nx by (simp add: prevImage_def [of "nextImage st"] len1 n_def)
  have "0 \<le> (i - 1 + n) mod n + 1"
    using b2(1) by linarith
  then have "js_rem ((i - 1 + n) mod n + 1) n = Some (((i - 1 + n) mod n + 1) mod n)"
    using n by (rule js_rem_nonneg)
  then have "js_rem ((i - 1 + n) mod n + 1) n = Some i"
    by (simp only: r2)
  then have np: "currentImageIndex (nextImage (prevImage st)) = Some i"
    using pv by (simp add: nextImage_def [of "prevImage st"] len2 n_def)
  show ?thesis
    using nx pv b1 b2 pn np unfolding n_def by simp
qed

theorem gallery_cycle_witness:
  "productImages sample_loaded \<noteq> [] \<and> currentImageIndex sample_loaded = Some 2
   \<and> (0::int) \<le> 2 \<and> 2 < int (length (productImages sample_loaded))
   \<and> currentImageIndex (nextImage sample_loaded) = Some 0
   \<and> currentImageIndex (prevImage sample_loaded) = Some 1
   \<and> currentImageIndex (prevImage (nextImage sample_loaded)) = Some 2
   \<and> currentImageIndex (nextImage (prevImage sample_loaded)) = Some 2"
  using gallery_cycle [of sample_loaded 2] by (simp add: sample_loaded_def sample_page_def)

subsection \<open>Rating a product\<close>

lemma sample_rating_run:
  "exec (handleRating 5 sample_loaded) sample_world
     = (showNotification ''Thank you for rating this product!'' success
          (sample_loaded\<lparr>rating := 5, hasRated := True\<rparr>),
        sample_world
          \<lparr>products := [sample_product\<lparr>p_rating := Some (9 / 2)\<rparr>],
           product_ratings :=
             [\<lparr>r_product_id = ''p1'', r_user_id = ''u1'', r_rating = 4\<rparr>,
              \<lparr>r_product_id = ''p1'', r_user_id = ''u2'', r_rating = 5\<rparr>,
              \<lparr>r_product_id = ''p2'', r_user_id = ''u2'', r_rating = 1\<rparr>]\<rparr>,
        [(sample_loaded, ReqUpsert ''p1'' ''u2'' 5),
         (showNotification ''Thank you for rating this product!'' success
            (sample_loaded\<lparr>rating := 5, hasRated := True\<rparr>), ReqSelectRatings ''p1''),
         (showNotification ''Thank you for rating this product!'' success
            (sample_loaded\<lparr>rating := 5, hasRated := True\<rparr>),
          ReqUpdateRating ''p1'' (9 / 2))])"
  by code_simp

lemma sample_thirds_run:
  "calls (exec (handleRating 2 sample_loaded) sample_world_thirds)
     = [ReqUpsert ''p1'' ''u2'' 2, ReqSelectRatings ''p1'',
        ReqUpdateRating ''p1'' (7505999378950827 / 4503599627370496)]"
  "ratings_of ''p1'' (service (exec (handleRating 2 sample_loaded) sample_world_thirds))
     = [1, 2, 2]"
  by code_simp+

text \<open>
  Claim C1, as stated: the value written back equals the arithmetic mean. It fails: with
  the ratings 1, 2 and 2 recorded, the handler writes the double nearest to 5/3, which
  is 7505999378950827 / 2^52 (printed 1.6666666666666667), not 5/3.
\<close>

theorem rating_mean_counterexample:
  "ReqUpdateRating ''p1'' (7505999378950827 / 4503599627370496)
     \<in> set (calls (exec (handleRating 2 sample_loaded) sample_world_thirds))
   \<and> ratings_of ''p1'' (service (exec (handleRating 2 sample_loaded) sample_world_thirds))
       = [1, 2, 2]
   \<and> sum_list [1, 2, 2 :: rat] / of_nat (length [1, 2, 2 :: rat]) = 5 / 3
   \<and> (7505999378950827 / 4503599627370496 :: rat) \<noteq> 5 / 3"
proof -
  have "ReqUpdateRating ''p1'' (7505999378950827 / 4503599627370496)
     \<in> set (calls (exec (handleRating 2 sample_loaded) sample_world_thirds))"
    unfolding sample_thirds_run(1) by simp
  moreover have "sum_list [1, 2, 2 :: rat] / of_nat (length [1, 2, 2 :: rat]) = 5 / 3"
    by simp
  moreover have "(7505999378950827 / 4503599627370496 :: rat) \<noteq> 5 / 3"
    by simp
  ultimately show ?thesis
    using sample_thirds_run(2) by (intro conjI)
qed

text \<open>
  Claim C1, amended. A logged-in user rates a loaded product with \<open>v\<close>. Whatever the
  service does to the three calls, a rating that \<open>handleRating\<close> writes back to the product
  is the sum of the ratings recorded for that product divided by their number, as the
  client computes it in double arithmetic (every addition and the division rounded to
  the nearest double), and \<open>v\<close> is one of these ratings. When no call fails the write
  happens, and every product record with that id then carries this value.
\<close>

theorem rating_written_is_double_mean:
  assumes "user st = Some u" and "product st = Some p"
  shows "(\<forall>pid r. ReqUpdateRating pid r \<in> set (calls (exec (handleRating v st) w)) \<longrightarrow>
            pid = p_id p
          \<and> r = js_div (foldl js_add 0
                          (ratings_of (p_id p) (service (exec (handleRating v st) w))))
                       (of_nat (length (ratings_of (p_id p)
                                   (service (exec (handleRating v st) w)))))
          \<and> v \<in> set (ratings_of (p_id p) (service (exec (handleRating v st) w))))
       \<and> (faults w = [] \<longrightarrow>
            (\<exists>r. ReqUpdateRating (p_id p) r \<in> set (calls (exec (handleRating v st) w)))
          \<and> (\<forall>q \<in> set (products (service (exec (handleRating v st) w))).
                p_id q = p_id p \<longrightarrow>
                p_rating q
                  = Some (js_div (foldl js_add 0
                                    (ratings_of (p_id p) (service (exec (handleRating v st) w))))
                                 (of_nat (length (ratings_of (p_id p)
                                             (service (exec (handleRating v st) w))))))))"
  using assms
proof (cases rule: handleRating_run [where v = v and w = w])
  case upsert_failed
  then show ?thesis by simp
next
  case select_failed
  then show ?thesis by simp
next
  case written
  show ?thesis
    using written(1,2) written(3)
    by (simp add: avgRating_def)
qed

theorem rating_written_is_double_mean_witness:
  "user sample_loaded = Some \<lparr>uid = ''u2''\<rparr> \<and> product sample_loaded = Some sample_product
   \<and> faults sample_world_thirds = []
   \<and> ReqUpdateRating ''p1'' (7505999378950827 / 4503599627370496)
        \<in> set (calls (exec (handleRating 2 sample_loaded) sample_world_thirds))
   \<and> ratings_of ''p1'' (service (exec (handleRating 2 sample_loaded) sample_world_thirds))
       = [1, 2, 2]
   \<and> js_div (foldl js_add 0 [1, 2, 2]) (of_nat (length [1, 2, 2 :: rat]))
       = 7505999378950827 / 4503599627370496
   \<and> p_id (hd (products (service (exec (handleRating 2 sample_loaded) sample_world_thirds))))
       = ''p1''
   \<and> p_rating (hd (products (service (exec (handleRating 2 sample_loaded) sample_world_thirds))))
       = Some (7505999378950827 / 4503599627370496)"
proof -
  have u: "user sample_loaded = Some \<lparr>uid = ''u2''\<rparr>"
    by (simp add: sample_loaded_def sample_page_def)
  have p: "product sample_loaded = Some sample_product"
    by (simp add: sample_loaded_def)
  have f: "faults sample_world_thirds = []"
    by (simp add: sample_world_thirds_def sample_world_def)
  have id: "p_id sample_product = ''p1''"
    by (simp add: sample_product_def)
  let ?S = "service (exec (handleRating 2 sample_loaded) sample_world_thirds)"
  note rs = sample_thirds_run(2)
  have c: "ReqUpdateRating ''p1'' (7505999378950827 / 4503599627370496)
        \<in> set (calls (exec (handleRating 2 sample_loaded) sample_world_thirds))"
    unfolding sample_thirds_run(1) by simp
  have m: "js_div (foldl js_add 0 [1, 2, 2]) (of_nat (length [1, 2, 2 :: rat]))
       = 7505999378950827 / 4503599627370496"
    by code_simp
  have "\<forall>q \<in> set (products ?S). p_id q = p_id sample_product \<longrightarrow>
          p_rating q = Some (js_div (foldl js_add 0 (ratings_of (p_id sample_product) ?S))
                               (of_nat (length (ratings_of (p_id sample_product) ?S))))"
    by (rule rating_written_is_double_mean [OF u p, of 2 sample_world_thirds,
          THEN conjunct2, THEN mp, OF f, THEN conjunct2])
  then have w: "\<forall>q \<in> set (products ?S). p_id q = ''p1'' \<longrightarrow>
          p_rating q = Some (7505999378950827 / 4503599627370496)"
    unfolding id rs m .
  have ps: "products ?S
      = [sample_product\<lparr>p_rating := Some (7505999378950827 / 4503599627370496)\<rparr>]"
    by code_simp
  have h: "p_id (hd (products ?S)) = ''p1''"
    unfolding ps by (simp add: id)
  have "hd (products ?S) \<in> set (products ?S)"
    unfolding ps by simp
  with w h have r: "p_rating (hd (products ?S)) = Some (7505999378950827 / 4503599627370496)"
    by blast
  show ?thesis
    by (intro conjI) (rule u p f c rs m h r)+
qed

subsection \<open>Loading the page\<close>

lemma fetch_first_call_fails:
  assumes "faults w = ErrorResult e # fs \<or> faults w = Rejection e # fs"
  shows "final (exec (fetchProductDetails st) w)
           = fetch_finally (fetch_catch e (st\<lparr>loading := True\<rparr>))"
  using assms
  by (auto simp: fetchProductDetails_def Let_def answer_ErrorResult answer_Rejection)

text \<open>
  Claim C7. Whatever the three reads answer (data, an error, a rejection),
  \<open>fetchProductDetails\<close> ends with \<open>loading\<close> false, so the page no longer shows the
  spinner, and it shows the not-found view when there is no product; at every call it
  awaits, \<open>loading\<close> is true and the page is the spinner alone. Against the service the
  run ends, in such a state; when the first read fails and no product was there, the
  page is the not-found view.
\<close>

theorem fetch_ends_loading:
  "(\<forall>s \<in> leaves (fetchProductDetails st).
      \<not> loading s \<and> ProductDetails_render E s \<noteq> Spinner
      \<and> (product s = None \<longrightarrow> ProductDetails_render E s = NotFound))
   \<and> (\<forall>(s, q) \<in> awaits (fetchProductDetails st).
      loading s \<and> ProductDetails_render E s = Spinner)
   \<and> \<not> loading (final (exec (fetchProductDetails st) w))
   \<and> (\<forall>s \<in> set (snapshots (exec (fetchProductDetails st) w)).
        ProductDetails_render E s = Spinner)
   \<and> (product st = None
        \<and> (\<exists>e fs. faults w = ErrorResult e # fs \<or> faults w = Rejection e # fs)
      \<longrightarrow> ProductDetails_render E (final (exec (fetchProductDetails st) w)) = NotFound)"
proof -
  have l: "\<forall>s \<in> leaves (fetchProductDetails st).
      \<not> loading s \<and> ProductDetails_render E s \<noteq> Spinner
      \<and> (product s = None \<longrightarrow> ProductDetails_render E s = NotFound)"
    by (auto simp: fetchProductDetails_def Let_def fetch_finally_def fetch_catch_def
          console_error_def ProductDetails_render_def
        split: response.splits option.splits list.splits)
  have a: "\<forall>(s, q) \<in> awaits (fetchProductDetails st).
      loading s \<and> ProductDetails_render E s = Spinner"
    by (auto simp: fetchProductDetails_def Let_def ProductDetails_render_def
        split: response.splits option.splits list.splits)
  have f: "\<not> loading (final (exec (fetchProductDetails st) w))"
    using l exec_leaves [of "fetchProductDetails st" w] by blast
  have s: "\<forall>s \<in> set (snapshots (exec (fetchProductDetails st) w)).
        ProductDetails_render E s = Spinner"
  proof
    fix s assume "s \<in> set (snapshots (exec (fetchProductDetails st) w))"
    then obtain q where "(s, q) \<in> set (snd (snd (exec (fetchProductDetails st) w)))"
      by (auto simp: snapshots_def)
    with exec_awaits [of "fetchProductDetails st" w]
    have "(s, q) \<in> awaits (fetchProductDetails st)" by blast
    with a show "ProductDetails_render E s = Spinner" by blast
  qed
  have n: "product st = None
        \<and> (\<exists>e fs. faults w = ErrorResult e # fs \<or> faults w = Rejection e # fs)
      \<longrightarrow> ProductDetails_render E (final (exec (fetchProductDetails st) w)) = NotFound"
  proof
    assume h: "product st = None
        \<and> (\<exists>e fs. faults w = ErrorResult e # fs \<or> faults w = Rejection e # fs)"
    then obtain e fs where "faults w = ErrorResult e # fs \<or> faults w = Rejection e # fs"
      by blast
    then have "final (exec (fetchProductDetails st) w)
           = fetch_finally (fetch_catch e (st\<lparr>loading := True\<rparr>))"
      by (rule fetch_first_call_fails)
    with h show "ProductDetails_render E (final (exec (fetchProductDetails st) w)) = NotFound"
      by (simp add: ProductDetails_render_def fetch_finally_def fetch_catch_def
            console_error_def)
  qed
  from l a f s n show ?thesis by (intro conjI)
qed

theorem fetch_ends_loading_witness:
  "\<not> loading (final (exec (fetchProductDetails sample_page) sample_world))
   \<and> final (exec (fetchProductDetails sample_page) sample_world) \<in> leaves (fetchProductDetails sample_page)
   \<and> ProductDetails_render sample_env (final (exec (fetchProductDetails sample_page) sample_world))
        \<noteq> Spinner
   \<and> product sample_page = None
   \<and> faults (sample_world\<lparr>faults := [Rejection ''offline'']\<rparr>) = [Rejection ''offline'']
   \<and> ProductDetails_render sample_env
        (final (exec (fetchProductDetails sample_page)
                  (sample_world\<lparr>faults := [Rejection ''offline'']\<rparr>))) = NotFound
   \<and> (sample_page\<lparr>loading := True\<rparr>, ReqSelectProduct ''p1'')
        \<in> awaits (fetchProductDetails sample_page)
   \<and> ProductDetails_render sample_env (sample_page\<lparr>loading := True\<rparr>) = Spinner"
proof -
  let ?w = "sample_world\<lparr>faults := [Rejection ''offline'']\<rparr>"
  note t = fetch_ends_loading [of sample_page sample_env ?w]
  note t0 = fetch_ends_loading [of sample_page sample_env sample_world]
  have lf: "final (exec (fetchProductDetails sample_page) sample_world)
              \<in> leaves (fetchProductDetails sample_page)"
    by (rule exec_leaves)
  have p: "product sample_page = None"
    by (simp add: sample_page_def)
  have fw: "faults ?w = [Rejection ''offline'']"
    by simp
  have aw: "(sample_page\<lparr>loading := True\<rparr>, ReqSelectProduct ''p1'')
        \<in> awaits (fetchProductDetails sample_page)"
    by (simp add: fetchProductDetails_def Let_def template_def sample_page_def)
  have c1: "\<not> loading (final (exec (fetchProductDetails sample_page) sample_world))"
    using t0 by blast
  have c2: "ProductDetails_render sample_env
              (final (exec (fetchProductDetails sample_page) sample_world)) \<noteq> Spinner"
    using t0 lf by blast
  have c3: "ProductDetails_render sample_env
        (final (exec (fetchProductDetails sample_page) ?w)) = NotFound"
    using t p fw by blast
  have c4: "ProductDetails_render sample_env (sample_page\<lparr>loading := True\<rparr>) = Spinner"
    using t0 aw by blast
  show ?thesis
    by (intro conjI) (rule c1 lf c2 p fw c3 aw c4)+
qed

subsection \<open>The rating flow\<close>

lemma fetch_no_fault:
  assumes f: "faults w = []" and pid: "productId st = Some pid"
    and one: "filter (\<lambda>p. p_id p = pid) (products w) = [p]" and u: "user st = Some u"
  shows "calls (exec (fetchProductDetails st) w)
           = [ReqSelectProduct pid, ReqSelectImages pid, ReqSelectUserRatings pid (uid u)]"
    and "service (exec (fetchProductDetails st) w) = w"
    and "user (final (exec (fetchProductDetails st) w)) = Some u"
    and "product (final (exec (fetchProductDetails st) w)) = Some p"
  using assms
  by (simp_all add: fetchProductDetails_def Let_def answer_Nil select_product_def
        select_images_def select_user_ratings_def template_def fetch_finally_def
      split: list.splits)

text \<open>
  Claim C2. A logged-in user opens the page of a product and rates it, and no call
  fails. The page load ends with the read of the user's existing rating; the rating then
  issues, in this order, the upsert of the new rating, the read of the product's ratings
  and the write of their mean. A call is issued by the continuation of the previous one,
  that is, after its answer: whatever the service answers, the calls of \<open>handleRating\<close>
  are the first one, two or three of this sequence.
\<close>

theorem rating_flow_order:
  assumes "faults w = []" and "productId st = Some pid"
    and "filter (\<lambda>p. p_id p = pid) (products w) = [p]" and "user st = Some u"
  shows "calls (exec (fetchProductDetails st) w)
           = [ReqSelectProduct pid, ReqSelectImages pid, ReqSelectUserRatings pid (uid u)]
       \<and> calls (exec (handleRating v (final (exec (fetchProductDetails st) w)))
                  (service (exec (fetchProductDetails st) w)))
           = [ReqUpsert pid (uid u) v, ReqSelectRatings pid,
              ReqUpdateRating pid
                (avgRating (ratings_of pid
                   (service (exec (handleRating v (final (exec (fetchProductDetails st) w)))
                               (service (exec (fetchProductDetails st) w))))))]
       \<and> (\<forall>w'. calls (exec (handleRating v (final (exec (fetchProductDetails st) w))) w')
                  = [ReqUpsert pid (uid u) v]
               \<or> calls (exec (handleRating v (final (exec (fetchProductDetails st) w))) w')
                  = [ReqUpsert pid (uid u) v, ReqSelectRatings pid]
               \<or> calls (exec (handleRating v (final (exec (fetchProductDetails st) w))) w')
                  = [ReqUpsert pid (uid u) v, ReqSelectRatings pid,
                     ReqUpdateRating pid
                       (avgRating (ratings_of pid
                          (service (exec (handleRating v
                             (final (exec (fetchProductDetails st) w))) w'))))])"
proof -
  let ?st = "final (exec (fetchProductDetails st) w)"
  note ld = fetch_no_fault [OF assms]
  have "p \<in> set (filter (\<lambda>p. p_id p = pid) (products w))"
    using assms(3) by simp
  then have id: "p_id p = pid"
    by simp
  have any: "calls (exec (handleRating v ?st) w') = [ReqUpsert pid (uid u) v]
               \<or> calls (exec (handleRating v ?st) w')
                  = [ReqUpsert pid (uid u) v, ReqSelectRatings pid]
               \<or> calls (exec (handleRating v ?st) w')
                  = [ReqUpsert pid (uid u) v, ReqSelectRatings pid,
                     ReqUpdateRating pid
                       (avgRating (ratings_of pid (service (exec (handleRating v ?st) w'))))]"
    for w'
    using ld(3,4)
    by (cases rule: handleRating_run [where v = v and w = w']) (simp_all add: id)
  have "calls (exec (handleRating v ?st) w)
           = [ReqUpsert pid (uid u) v, ReqSelectRatings pid,
              ReqUpdateRating pid
                (avgRating (ratings_of pid (service (exec (handleRating v ?st) w))))]"
    using ld(3,4)
    by (cases rule: handleRating_run [where v = v and w = w]) (simp_all add: id assms(1))
  with ld(1) any show ?thesis
    by (simp only: ld(2)) blast
qed

theorem rating_flow_order_witness:
  "faults sample_world = [] \<and> productId sample_page = Some ''p1''
   \<and> filter (\<lambda>p. p_id p = ''p1'') (products sample_world) = [sample_product]
   \<and> user sample_page = Some \<lparr>uid = ''u2''\<rparr>
   \<and> calls (exec (fetchProductDetails sample_page) sample_world)
        @ calls (exec (handleRating 5 (final (exec (fetchProductDetails sample_page) sample_world)))
                   (service (exec (fetchProductDetails sample_page) sample_world)))
       = [ReqSelectProduct ''p1'', ReqSelectImages ''p1'', ReqSelectUserRatings ''p1'' ''u2'',
          ReqUpsert ''p1'' ''u2'' 5, ReqSelectRatings ''p1'', ReqUpdateRating ''p1'' (9 / 2)]"
proof -
  have f: "faults sample_world = []"
    by (simp add: sample_world_def)
  have i: "productId sample_page = Some ''p1''"
    by (simp add: sample_page_def)
  have o: "filter (\<lambda>p. p_id p = ''p1'') (products sample_world) = [sample_product]"
    by (simp add: sample_world_def sample_product_def)
  have u: "user sample_page = Some \<lparr>uid = ''u2''\<rparr>"
    by (simp add: sample_page_def)
  let ?S = "service (exec (handleRating 5 (final (exec (fetchProductDetails sample_page) sample_world)))
                   (service (exec (fetchProductDetails sample_page) sample_world)))"
  have r: "avgRating (ratings_of ''p1'' ?S) = 9 / 2"
    by code_simp
  from rating_flow_order [OF f i o u, of 5]
  have "calls (exec (fetchProductDetails sample_page) sample_world)
        @ calls (exec (handleRating 5 (final (exec (fetchProductDetails sample_page) sample_world)))
                   (service (exec (fetchProductDetails sample_page) sample_world)))
       = [ReqSelectProduct ''p1'', ReqSelectImages ''p1'', ReqSelectUserRatings ''p1'' ''u2'',
          ReqUpsert ''p1'' ''u2'' 5, ReqSelectRatings ''p1'', ReqUpdateRating ''p1'' (9 / 2)]"
    by (simp add: r)
  with f i o u show ?thesis
    by (intro conjI)
qed

text \<open>
  Claim C3, as stated: the client computes no rating aggregate. It fails: the service
  returns the ratings 4 and 5, and the client sends the value 9/2, which no answer of
  the service contained.
\<close>

theorem aggregation_delegated_counterexample:
  "calls (exec (handleRating 5 sample_loaded) sample_world)
     = [ReqUpsert ''p1'' ''u2'' 5, ReqSelectRatings ''p1'', ReqUpdateRating ''p1'' (9 / 2)]
   \<and> ratings_of ''p1'' (service (exec (handleRating 5 sample_loaded) sample_world)) = [4, 5]
   \<and> (9 / 2 :: rat) \<notin> set [4, 5]"
proof -
  have "calls (exec (handleRating 5 sample_loaded) sample_world)
     = [ReqUpsert ''p1'' ''u2'' 5, ReqSelectRatings ''p1'', ReqUpdateRating ''p1'' (9 / 2)]"
    unfolding sample_rating_run calls_triple by simp
  moreover have "ratings_of ''p1'' (service (exec (handleRating 5 sample_loaded) sample_world))
      = [4, 5]"
    unfolding sample_rating_run service_triple by code_simp
  moreover have "(9 / 2 :: rat) \<notin> set [4, 5]"
    by simp
  ultimately show ?thesis
    by (intro conjI)
qed

text \<open>
  Claim C3, amended. The client computes the aggregate itself: for a logged-in user and
  a loaded product, \<open>handleRating\<close> issues the upsert, after its success the read of the
  product's ratings, and for every non-empty list \<open>rs\<close> that this read returns, the next
  call of the client writes to the product the sum of \<open>rs\<close> divided by the length of
  \<open>rs\<close>, computed by the client in double arithmetic.
\<close>

theorem client_computes_average:
  assumes "user st = Some u" and "product st = Some p" and "rs \<noteq> []"
  shows "\<exists>k1 st1 k2 k3.
           handleRating v st = Upsert st (p_id p) (uid u) v k1
         \<and> k1 (Resolved None None) = SelectRatings st1 (p_id p) k2
         \<and> k2 (Resolved (Some rs) None)
             = UpdateRating st1 (p_id p)
                 (js_div (foldl js_add 0 rs) (of_nat (length rs))) k3"
proof -
  from handleRating_shape [OF assms(1,2), of v] obtain k1 k2 k3 st1 where
    "handleRating v st = Upsert st (p_id p) (uid u) v k1"
    and "\<And>d. k1 (Resolved d None) = SelectRatings st1 (p_id p) k2"
    and "\<And>rs. rs \<noteq> [] \<Longrightarrow>
           k2 (Resolved (Some rs) None) = UpdateRating st1 (p_id p) (avgRating rs) k3"
    by metis
  with assms(3) show ?thesis
    by (simp add: avgRating_def)
qed

theorem client_computes_average_witness:
  "user sample_loaded = Some \<lparr>uid = ''u2''\<rparr> \<and> product sample_loaded = Some sample_product
   \<and> [4, 5 :: rat] \<noteq> []
   \<and> js_div (foldl js_add 0 [4, 5]) (of_nat (length [4, 5 :: rat])) = 9 / 2
   \<and> (\<exists>k1 st1 k2 k3.
           handleRating 5 sample_loaded = Upsert sample_loaded ''p1'' ''u2'' 5 k1
         \<and> k1 (Resolved None None) = SelectRatings st1 ''p1'' k2
         \<and> k2 (Resolved (Some [4, 5]) None) = UpdateRating st1 ''p1'' (9 / 2) k3)"
proof -
  have u: "user sample_loaded = Some \<lparr>uid = ''u2''\<rparr>"
    by (simp add: sample_loaded_def sample_page_def)
  have p: "product sample_loaded = Some sample_product"
    by (simp add: sample_loaded_def)
  have n: "[4, 5 :: rat] \<noteq> []"
    by simp
  have id: "p_id sample_product = ''p1''"
    by (simp add: sample_product_def)
  have m: "js_div (foldl js_add 0 [4, 5]) (of_nat (length [4, 5 :: rat])) = 9 / 2"
    by code_simp
  from client_computes_average [OF u p n, of 5]
  have "\<exists>k1 st1 k2 k3.
           handleRating 5 sample_loaded = Upsert sample_loaded ''p1'' ''u2'' 5 k1
         \<and> k1 (Resolved None None) = SelectRatings st1 ''p1'' k2
         \<and> k2 (Resolved (Some [4, 5]) None) = UpdateRating st1 ''p1'' (9 / 2) k3"
    unfolding id m by simp
  with u p n m show ?thesis
    by (intro conjI)
qed

subsection \<open>Attempts without a login\<close>

text \<open>
  Claim C9. With no user logged in, the Add button of the card, the Add-to-Cart button
  of the detail page (it exists only in the product view, that is, when a product is
  loaded) and a click on a star all end at once in the redirect to \<open>/login\<close>: the handler
  issues no call at all, neither \<open>addToCart\<close> nor a request to the service, and the run
  leaves the service, with its cart and its ratings, as it was.
\<close>

theorem logged_out_attempts:
  assumes "\<not> isLoggedIn c" and "\<not> isLoggedIn st"
  shows "ProductCard_handleAddToCart p c = Done (c\<lparr>navigated := navigated c @ [''/login'']\<rparr>)
       \<and> (product st \<noteq> None \<longrightarrow>
            ProductDetails_handleAddToCart st = Done (st\<lparr>location_href := ''/login''\<rparr>))
       \<and> handleRating v st = Done (st\<lparr>location_href := ''/login''\<rparr>)
       \<and> awaits (ProductCard_handleAddToCart p c) = {}
       \<and> awaits (ProductDetails_handleAddToCart st) = {}
       \<and> awaits (handleRating v st) = {}
       \<and> exec (ProductCard_handleAddToCart p c) w
            = (c\<lparr>navigated := navigated c @ [''/login'']\<rparr>, w, [])
       \<and> service (exec (ProductDetails_handleAddToCart st) w) = w
       \<and> calls (exec (ProductDetails_handleAddToCart st) w) = []
       \<and> exec (handleRating v st) w = (st\<lparr>location_href := ''/login''\<rparr>, w, [])"
proof -
  have u: "user st = None"
    using assms(2) by (simp add: isLoggedIn_def)
  have c: "ProductCard_handleAddToCart p c = Done (c\<lparr>navigated := navigated c @ [''/login'']\<rparr>)"
    using assms(1) by (simp add: ProductCard_handleAddToCart_def)
  have r: "handleRating v st = Done (st\<lparr>location_href := ''/login''\<rparr>)"
    using u by (simp add: handleRating_def)
  have d: "ProductDetails_handleAddToCart st
             = (case product st of None \<Rightarrow> Done st
                | Some p \<Rightarrow> Done (st\<lparr>location_href := ''/login''\<rparr>))"
    using assms(2) by (simp add: ProductDetails_handleAddToCart_def split: option.splits)
  show ?thesis
    unfolding c r d by (simp split: option.splits)
qed

theorem logged_out_attempts_witness:
  "\<not> isLoggedIn sample_card \<and> \<not> isLoggedIn (sample_loaded\<lparr>user := None\<rparr>)
   \<and> product (sample_loaded\<lparr>user := None\<rparr>) \<noteq> None
   \<and> navigated (final (exec (ProductCard_handleAddToCart sample_product sample_card) sample_world))
       = [''/login'']
   \<and> ProductDetails_handleAddToCart (sample_loaded\<lparr>user := None\<rparr>)
       = Done (sample_loaded\<lparr>user := None, location_href := ''/login''\<rparr>)
   \<and> exec (handleRating 4 (sample_loaded\<lparr>user := None\<rparr>)) sample_world
       = (sample_loaded\<lparr>user := None, location_href := ''/login''\<rparr>, sample_world, [])"
proof -
  have a: "\<not> isLoggedIn sample_card"
    by (simp add: isLoggedIn_def sample_card_def)
  have b: "\<not> isLoggedIn (sample_loaded\<lparr>user := None\<rparr>)"
    by (simp add: isLoggedIn_def)
  have p: "product (sample_loaded\<lparr>user := None\<rparr>) \<noteq> None"
    by (simp add: sample_loaded_def)
  note t = logged_out_attempts [OF a b, of sample_product 4 sample_world]
  have n: "navigated (final (exec (ProductCard_handleAddToCart sample_product sample_card)
             sample_world)) = [''/login'']"
    using t by (simp add: sample_card_def)
  have d: "ProductDetails_handleAddToCart (sample_loaded\<lparr>user := None\<rparr>)
       = Done (sample_loaded\<lparr>user := None, location_href := ''/login''\<rparr>)"
    using t p by simp
  have r: "exec (handleRating 4 (sample_loaded\<lparr>user := None\<rparr>)) sample_world
       = (sample_loaded\<lparr>user := None, location_href := ''/login''\<rparr>, sample_world, [])"
    using t by simp
  show ?thesis
    by (intro conjI) (rule a b p n d r)+
qed

subsection \<open>Copying the product link\<close>

lemma copied_props:
  "linkCopied (copied s) \<and> last (body (copied s)) = (''Link copied to clipboard!'', success)
   \<and> (2000, ResetLinkCopied) \<in> set (timers (copied s))
   \<and> \<not> linkCopied (fire ResetLinkCopied (copied s))"
  by (simp add: copied_def showNotification_def Let_def)

lemma copy_failed_props:
  "linkCopied (copy_failed e s) = linkCopied s
   \<and> last (body (copy_failed e s)) = (''Failed to copy link'', error)"
  by (simp add: copy_failed_def showNotification_def console_error_def)

text \<open>
  Claim C6. In both components the copy action issues one clipboard write, of the text
  \<open>https://ulishastore.netlify.app/product/\<close> followed by the product id (on the detail
  page, the id of the route). When the write succeeds the clipboard holds that text, the
  link is marked as copied, the success notification is the last element shown, and a
  timer of 2000 ms is pending whose callback clears the mark. When the write is rejected
  the clipboard and the mark are unchanged and the error notification is shown.
\<close>

theorem copy_link:
  "(faults w = [] \<longrightarrow>
      calls (exec (ProductCard_copyToClipboard p c) w)
        = [ReqWriteText (''https://ulishastore.netlify.app/product/'' @ p_id p)]
    \<and> clipboard (service (exec (ProductCard_copyToClipboard p c) w))
        = ''https://ulishastore.netlify.app/product/'' @ p_id p
    \<and> linkCopied (final (exec (ProductCard_copyToClipboard p c) w))
    \<and> last (body (final (exec (ProductCard_copyToClipboard p c) w)))
        = (''Link copied to clipboard!'', success)
    \<and> (2000, ResetLinkCopied) \<in> set (timers (final (exec (ProductCard_copyToClipboard p c) w)))
    \<and> \<not> linkCopied (fire ResetLinkCopied (final (exec (ProductCard_copyToClipboard p c) w))))
   \<and> (faults w = [Rejection e] \<longrightarrow>
      calls (exec (ProductCard_copyToClipboard p c) w)
        = [ReqWriteText (''https://ulishastore.netlify.app/product/'' @ p_id p)]
    \<and> clipboard (service (exec (ProductCard_copyToClipboard p c) w)) = clipboard w
    \<and> linkCopied (final (exec (ProductCard_copyToClipboard p c) w)) = linkCopied c
    \<and> last (body (final (exec (ProductCard_copyToClipboard p c) w)))
        = (''Failed to copy link'', error))
   \<and> (faults w = [] \<and> productId st = Some pid \<longrightarrow>
      calls (exec (ProductDetails_copyToClipboard st) w)
        = [ReqWriteText (''https://ulishastore.netlify.app/product/'' @ pid)]
    \<and> clipboard (service (exec (ProductDetails_copyToClipboard st) w))
        = ''https://ulishastore.netlify.app/product/'' @ pid
    \<and> linkCopied (final (exec (ProductDetails_copyToClipboard st) w))
    \<and> last (body (final (exec (ProductDetails_copyToClipboard st) w)))
        = (''Link copied to clipboard!'', success)
    \<and> (2000, ResetLinkCopied) \<in> set (timers (final (exec (ProductDetails_copyToClipboard st) w)))
    \<and> \<not> linkCopied (fire ResetLinkCopied (final (exec (ProductDetails_copyToClipboard st) w))))
   \<and> (faults w = [Rejection e] \<and> productId st = Some pid \<longrightarrow>
      calls (exec (ProductDetails_copyToClipboard st) w)
        = [ReqWriteText (''https://ulishastore.netlify.app/product/'' @ pid)]
    \<and> clipboard (service (exec (ProductDetails_copyToClipboard st) w)) = clipboard w
    \<and> linkCopied (final (exec (ProductDetails_copyToClipboard st) w)) = linkCopied st
    \<and> last (body (final (exec (ProductDetails_copyToClipboard st) w)))
        = (''Failed to copy link'', error))"
proof -
  have c1: "faults w = [] \<Longrightarrow> exec (ProductCard_copyToClipboard p c) w
      = (copied c, w\<lparr>clipboard := ''https://ulishastore.netlify.app/product/'' @ p_id p\<rparr>,
         [(c, ReqWriteText (''https://ulishastore.netlify.app/product/'' @ p_id p))])"
    by (simp add: ProductCard_copyToClipboard_def ProductCard_getProductLink_def answer_Nil
          write_text_def logged_def)
  have c2: "faults w = [Rejection e] \<Longrightarrow> exec (ProductCard_copyToClipboard p c) w
      = (copy_failed e c, w\<lparr>faults := []\<rparr>,
         [(c, ReqWriteText (''https://ulishastore.netlify.app/product/'' @ p_id p))])"
    by (simp add: ProductCard_copyToClipboard_def ProductCard_getProductLink_def
          answer_Rejection logged_def)
  have d1: "faults w = [] \<Longrightarrow> productId st = Some pid \<Longrightarrow>
      exec (ProductDetails_copyToClipboard st) w
      = (copied st, w\<lparr>clipboard := ''https://ulishastore.netlify.app/product/'' @ pid\<rparr>,
         [(st, ReqWriteText (''https://ulishastore.netlify.app/product/'' @ pid))])"
    by (simp add: ProductDetails_copyToClipboard_def ProductDetails_getProductLink_def
          template_def answer_Nil write_text_def logged_def)
  have d2: "faults w = [Rejection e] \<Longrightarrow> productId st = Some pid \<Longrightarrow>
      exec (ProductDetails_copyToClipboard st) w
      = (copy_failed e st, w\<lparr>faults := []\<rparr>,
         [(st, ReqWriteText (''https://ulishastore.netlify.app/product/'' @ pid))])"
    by (simp add: ProductDetails_copyToClipboard_def ProductDetails_getProductLink_def
          template_def answer_Rejection logged_def)
  show ?thesis
  proof (intro conjI impI)
    assume "faults w = []"
    note r = c1 [OF this]
    show "calls (exec (ProductCard_copyToClipboard p c) w)
        = [ReqWriteText (''https://ulishastore.netlify.app/product/'' @ p_id p)]"
      unfolding r by simp
    show "clipboard (service (exec (ProductCard_copyToClipboard p c) w))
        = ''https://ulishastore.netlify.app/product/'' @ p_id p"
      unfolding r by simp
    show "linkCopied (final (exec (ProductCard_copyToClipboard p c) w))"
      unfolding r final_triple using copied_props [of c] by blast
    show "last (body (final (exec (ProductCard_copyToClipboard p c) w)))
        = (''Link copied to clipboard!'', success)"
      unfolding r final_triple using copied_props [of c] by blast
    show "(2000, ResetLinkCopied)
        \<in> set (timers (final (exec (ProductCard_copyToClipboard p c) w)))"
      unfolding r final_triple using copied_props [of c] by blast
    show "\<not> linkCopied (fire ResetLinkCopied (final (exec (ProductCard_copyToClipboard p c) w)))"
      unfolding r final_triple using copied_props [of c] by blast
  next
    assume "faults w = [Rejection e]"
    note r = c2 [OF this]
    show "calls (exec (ProductCard_copyToClipboard p c) w)
        = [ReqWriteText (''https://ulishastore.netlify.app/product/'' @ p_id p)]"
      unfolding r by simp
    show "clipboard (service (exec (ProductCard_copyToClipboard p c) w)) = clipboard w"
      unfolding r by simp
    show "linkCopied (final (exec (ProductCard_copyToClipboard p c) w)) = linkCopied c"
      unfolding r final_triple using copy_failed_props [of e c] by blast
    show "last (body (final (exec (ProductCard_copyToClipboard p c) w)))
        = (''Failed to copy link'', error)"
      unfolding r final_triple using copy_failed_props [of e c] by blast
  next
    assume "faults w = [] \<and> productId st = Some pid"
    then have "faults w = []" and "productId st = Some pid" by simp_all
    note r = d1 [OF this]
    show "calls (exec (ProductDetails_copyToClipboard st) w)
        = [ReqWriteText (''https://ulishastore.netlify.app/product/'' @ pid)]"
      unfolding r by simp
    show "clipboard (service (exec (ProductDetails_copyToClipboard st) w))
        = ''https://ulishastore.netlify.app/product/'' @ pid"
      unfolding r by simp
    show "linkCopied (final (exec (ProductDetails_copyToClipboard st) w))"
      unfolding r final_triple using copied_props [of st] by blast
    show "last (body (final (exec (ProductDetails_copyToClipboard st) w)))
        = (''Link copied to clipboard!'', success)"
      unfolding r final_triple using copied_props [of st] by blast
    show "(2000, ResetLinkCopied)
        \<in> set (timers (final (exec (ProductDetails_copyToClipboard st) w)))"
      unfolding r final_triple using copied_props [of st] by blast
    show "\<not> linkCopied (fire ResetLinkCopied (final (exec (ProductDetails_copyToClipboard st) w)))"
      unfolding r final_triple using copied_props [of st] by blast
  next
    assume "faults w = [Rejection e] \<and> productId st = Some pid"
    then have "faults w = [Rejection e]" and "productId st = Some pid" by simp_all
    note r = d2 [OF this]
    show "calls (exec (ProductDetails_copyToClipboard st) w)
        = [ReqWriteText (''https://ulishastore.netlify.app/product/'' @ pid)]"
      unfolding r by simp
    show "clipboard (service (exec (ProductDetails_copyToClipboard st) w)) = clipboard w"
      unfolding r by simp
    show "linkCopied (final (exec (ProductDetails_copyToClipboard st) w)) = linkCopied st"
      unfolding r final_triple using copy_failed_props [of e st] by blast
    show "last (body (final (exec (ProductDetails_copyToClipboard st) w)))
        = (''Failed to copy link'', error)"
      unfolding r final_triple using copy_failed_props [of e st] by blast
  qed
qed

subsection \<open>Stars\<close>

lemma filled_upto:
  assumes "1 \<le> c" and "c \<le> 5"
  shows "map (\<lambda>i. int i < c) [0..<5] = replicate (nat c) True @ replicate (5 - nat c) False"
proof -
  have l: "[0..<5] = [0, 1, 2, 3, 4]"
    by (simp add: upt_rec)
  from assms consider "c = 1" | "c = 2" | "c = 3" | "c = 4" | "c = 5"
    by fastforce
  then show ?thesis
    by cases (simp_all add: l numeral_eq_Suc)
qed

lemma stars_ceiling:
  assumes "0 < r" and "r \<le> 5"
  shows "map (\<lambda>i. r > of_nat i) [0..<5]
           = replicate (nat \<lceil>r\<rceil>) True @ replicate (5 - nat \<lceil>r\<rceil>) False"
proof -
  have key: "(of_nat k < r) = (int k < \<lceil>r\<rceil>)" for k :: nat
    using less_ceiling_iff [of "int k" r] by simp
  have "1 \<le> \<lceil>r\<rceil>"
    using assms(1) by (simp add: Suc_le_eq)
  moreover have "\<lceil>r\<rceil> \<le> 5"
    using assms(2) by (simp add: ceiling_le_iff)
  ultimately have "map (\<lambda>i. int i < \<lceil>r\<rceil>) [0..<5]
           = replicate (nat \<lceil>r\<rceil>) True @ replicate (5 - nat \<lceil>r\<rceil>) False"
    by (rule filled_upto)
  then show ?thesis
    by (simp only: key)
qed

lemma rating_or_5_falsy: "r = None \<or> r = Some 0 \<Longrightarrow> rating_or_5 r = 5"
  by (auto simp: rating_or_5_def)

lemma five_stars: "map (\<lambda>i. (5::rat) > of_nat i) [0..<5] = replicate 5 True"
  using stars_ceiling [of 5] by simp

text \<open>
  Claim C10. A product whose rating is absent or 0 has all five stars of its card
  filled; for a rating \<open>r\<close> with \<open>0 < r \<le> 5\<close> the card fills the first \<open>\<lceil>r\<rceil>\<close> stars and
  no other. The detail page sets its displayed rating to 5 when the product it loaded has
  an absent or zero rating: this is the rating while the images are awaited, and, for a
  visitor who is not logged in, the rating the load ends with, shown as five filled stars.
\<close>

theorem default_rating_stars:
  "(p_rating p = None \<or> p_rating p = Some 0 \<longrightarrow> ProductCard_stars p = replicate 5 True)
   \<and> (\<forall>r. p_rating p = Some r \<and> 0 < r \<and> r \<le> 5 \<longrightarrow>
          ProductCard_stars p = replicate (nat \<lceil>r\<rceil>) True @ replicate (5 - nat \<lceil>r\<rceil>) False
        \<and> length (filter (\<lambda>b. b) (ProductCard_stars p)) = nat \<lceil>r\<rceil>)
   \<and> (\<forall>(s, q) \<in> awaits (fetchProductDetails st). \<forall>pd.
          q = ReqSelectImages (template (productId st)) \<and> product s = Some pd
          \<and> (p_rating pd = None \<or> p_rating pd = Some 0) \<longrightarrow> rating s = 5)
   \<and> (\<forall>s \<in> leaves (fetchProductDetails st). \<forall>pd.
          user st = None \<and> product st = None \<and> product s = Some pd
          \<and> (p_rating pd = None \<or> p_rating pd = Some 0) \<longrightarrow>
          rating s = 5
          \<and> (hoverRating s = 0 \<longrightarrow> stars (ProductDetails_render E s) = replicate 5 True))"
proof -
  have a: "p_rating p = None \<or> p_rating p = Some 0 \<longrightarrow> ProductCard_stars p = replicate 5 True"
    using five_stars by (auto simp: ProductCard_stars_def rating_or_5_falsy)
  have b: "\<forall>r. p_rating p = Some r \<and> 0 < r \<and> r \<le> 5 \<longrightarrow>
          ProductCard_stars p = replicate (nat \<lceil>r\<rceil>) True @ replicate (5 - nat \<lceil>r\<rceil>) False
        \<and> length (filter (\<lambda>b. b) (ProductCard_stars p)) = nat \<lceil>r\<rceil>"
  proof (intro allI impI)
    fix r assume h: "p_rating p = Some r \<and> 0 < r \<and> r \<le> 5"
    then have "rating_or_5 (p_rating p) = r"
      by (simp add: rating_or_5_def)
    then have e: "ProductCard_stars p
        = replicate (nat \<lceil>r\<rceil>) True @ replicate (5 - nat \<lceil>r\<rceil>) False"
      using h stars_ceiling [of r] by (simp add: ProductCard_stars_def)
    show "ProductCard_stars p = replicate (nat \<lceil>r\<rceil>) True @ replicate (5 - nat \<lceil>r\<rceil>) False
        \<and> length (filter (\<lambda>b. b) (ProductCard_stars p)) = nat \<lceil>r\<rceil>"
      unfolding e by simp
  qed
  have c: "\<forall>(s, q) \<in> awaits (fetchProductDetails st). \<forall>pd.
          q = ReqSelectImages (template (productId st)) \<and> product s = Some pd
          \<and> (p_rating pd = None \<or> p_rating pd = Some 0) \<longrightarrow> rating s = 5"
    by (auto simp: fetchProductDetails_def Let_def rating_or_5_def
        split: response.splits option.splits list.splits)
  have d: "\<forall>s \<in> leaves (fetchProductDetails st). \<forall>pd.
          user st = None \<and> product st = None \<and> product s = Some pd
          \<and> (p_rating pd = None \<or> p_rating pd = Some 0) \<longrightarrow>
          rating s = 5
          \<and> (hoverRating s = 0 \<longrightarrow> stars (ProductDetails_render E s) = replicate 5 True)"
    using five_stars
    by (auto simp: fetchProductDetails_def Let_def rating_or_5_def fetch_finally_def
          fetch_catch_def console_error_def ProductDetails_render_def js_or_def
        split: response.splits option.splits list.splits)
  from a b c d show ?thesis by (intro conjI)
qed

subsection \<open>The price\<close>

lemma fetch_loads_product:
  assumes "faults w = []" and "productId st = Some pid"
    and "filter (\<lambda>p. p_id p = pid) (products w) = [p]"
  shows "product (final (exec (fetchProductDetails st) w)) = Some p"
    and "\<not> loading (final (exec (fetchProductDetails st) w))"
  using assms
  by (simp_all add: fetchProductDetails_def Let_def answer_Nil select_product_def
        select_images_def select_user_ratings_def template_def fetch_finally_def
      split: list.splits option.splits)

text \<open>
  Claim C5. The card shows \<open>product.price\<close> formatted by \<open>Intl.NumberFormat\<close> for the
  locale \<open>en-NG\<close> with style \<open>currency\<close> and currency \<open>NGN\<close>, and the detail page shows
  the same text for the same product, also when it has loaded the product from the
  service itself.
\<close>

theorem price_format:
  "ProductCard_formattedPrice E p = Intl_NumberFormat E ''en-NG'' ''currency'' ''NGN'' (p_price p)
   \<and> price_text (ProductCard_render E p c) = ProductCard_formattedPrice E p
   \<and> (\<not> loading st \<and> product st = Some p \<longrightarrow>
        price_text (ProductDetails_render E st) = ProductCard_formattedPrice E p)
   \<and> (faults w = [] \<and> productId st = Some pid
        \<and> filter (\<lambda>q. p_id q = pid) (products w) = [p] \<longrightarrow>
        price_text (ProductDetails_render E (final (exec (fetchProductDetails st) w)))
          = ProductCard_formattedPrice E p)"
proof -
  have "price_text (ProductDetails_render E (final (exec (fetchProductDetails st) w)))
          = ProductCard_formattedPrice E p"
    if "faults w = [] \<and> productId st = Some pid
        \<and> filter (\<lambda>q. p_id q = pid) (products w) = [p]"
  proof -
    from that have "product (final (exec (fetchProductDetails st) w)) = Some p"
      and "\<not> loading (final (exec (fetchProductDetails st) w))"
      using fetch_loads_product [of w st pid p] by simp_all
    then show ?thesis
      by (simp add: ProductDetails_render_def ProductCard_formattedPrice_def)
  qed
  then show ?thesis
    by (simp add: ProductCard_formattedPrice_def ProductCard_render_def
          ProductDetails_render_def)
qed

subsection \<open>Concrete runs of the copy action, the stars and the price\<close>

theorem copy_link_witness:
  "faults sample_world = []
   \<and> clipboard (service (exec (ProductCard_copyToClipboard sample_product sample_card) sample_world))
       = ''https://ulishastore.netlify.app/product/p1''
   \<and> linkCopied (final (exec (ProductCard_copyToClipboard sample_product sample_card) sample_world))
   \<and> faults (sample_world\<lparr>faults := [Rejection ''denied'']\<rparr>) = [Rejection ''denied'']
   \<and> last (body (final (exec (ProductCard_copyToClipboard sample_product sample_card)
                            (sample_world\<lparr>faults := [Rejection ''denied'']\<rparr>))))
       = (''Failed to copy link'', error)
   \<and> productId sample_loaded = Some ''p1''
   \<and> calls (exec (ProductDetails_copyToClipboard sample_loaded) sample_world)
       = [ReqWriteText ''https://ulishastore.netlify.app/product/p1'']
   \<and> \<not> linkCopied (fire ResetLinkCopied
         (final (exec (ProductDetails_copyToClipboard sample_loaded) sample_world)))
   \<and> linkCopied (final (exec (ProductDetails_copyToClipboard sample_loaded)
                           (sample_world\<lparr>faults := [Rejection ''denied'']\<rparr>)))
       = linkCopied sample_loaded"
proof -
  let ?w = "sample_world\<lparr>faults := [Rejection ''denied'']\<rparr>"
  have f: "faults sample_world = []"
    by (simp add: sample_world_def)
  have g: "faults ?w = [Rejection ''denied'']"
    by simp
  have i: "productId sample_loaded = Some ''p1''"
    by (simp add: sample_loaded_def sample_page_def)
  have id: "p_id sample_product = ''p1''"
    by (simp add: sample_product_def)
  note t = copy_link [of sample_world sample_product sample_card "''denied''" sample_loaded "''p1''"]
  note t' = copy_link [of ?w sample_product sample_card "''denied''" sample_loaded "''p1''"]
  have a: "clipboard (service (exec (ProductCard_copyToClipboard sample_product sample_card)
             sample_world)) = ''https://ulishastore.netlify.app/product/p1''"
    using t f by (simp add: id)
  have b: "linkCopied (final (exec (ProductCard_copyToClipboard sample_product sample_card)
             sample_world))"
    using t f by blast
  have c: "last (body (final (exec (ProductCard_copyToClipboard sample_product sample_card) ?w)))
       = (''Failed to copy link'', error)"
    using t' g by blast
  have d: "calls (exec (ProductDetails_copyToClipboard sample_loaded) sample_world)
       = [ReqWriteText ''https://ulishastore.netlify.app/product/p1'']"
    using t f i by simp
  have e: "\<not> linkCopied (fire ResetLinkCopied
         (final (exec (ProductDetails_copyToClipboard sample_loaded) sample_world)))"
    using t f i by blast
  have h: "linkCopied (final (exec (ProductDetails_copyToClipboard sample_loaded) ?w))
       = linkCopied sample_loaded"
    using t' g i by blast
  show ?thesis
    by (intro conjI) (rule f a b g c i d e h)+
qed

theorem default_rating_stars_witness:
  "p_rating sample_product = None
   \<and> ProductCard_stars sample_product = [True, True, True, True, True]
   \<and> p_rating (sample_product\<lparr>p_rating := Some (7 / 2)\<rparr>) = Some (7 / 2)
   \<and> (0::rat) < 7 / 2 \<and> (7 / 2 :: rat) \<le> 5
   \<and> ProductCard_stars (sample_product\<lparr>p_rating := Some (7 / 2)\<rparr>)
       = [True, True, True, True, False]
   \<and> user (sample_page\<lparr>user := None\<rparr>) = None \<and> product (sample_page\<lparr>user := None\<rparr>) = None
   \<and> product (final (exec (fetchProductDetails (sample_page\<lparr>user := None\<rparr>)) sample_world))
       = Some sample_product
   \<and> rating (final (exec (fetchProductDetails (sample_page\<lparr>user := None\<rparr>)) sample_world)) = 5"
proof -
  let ?p = "sample_product\<lparr>p_rating := Some (7 / 2)\<rparr>"
  let ?st = "sample_page\<lparr>user := None\<rparr>"
  have n: "p_rating sample_product = None"
    by (simp add: sample_product_def)
  have r: "p_rating ?p = Some (7 / 2)"
    by simp
  have c: "\<lceil>7 / 2 :: rat\<rceil> = 4"
    by (simp add: ceiling_eq_iff)
  have a: "ProductCard_stars sample_product = [True, True, True, True, True]"
    using default_rating_stars [of sample_product ?st sample_env] n
    by (simp add: numeral_eq_Suc)
  have "p_rating ?p = Some (7 / 2) \<and> (0::rat) < 7 / 2 \<and> (7 / 2 :: rat) \<le> 5"
    by simp
  with default_rating_stars [of ?p ?st sample_env, THEN conjunct2, THEN conjunct1,
      THEN spec, of "7 / 2"]
  have "ProductCard_stars ?p
      = replicate (nat \<lceil>7 / 2 :: rat\<rceil>) True @ replicate (5 - nat \<lceil>7 / 2 :: rat\<rceil>) False"
    by blast
  then have b: "ProductCard_stars ?p = [True, True, True, True, False]"
    unfolding c by (simp add: numeral_eq_Suc)
  have u: "user ?st = None" by simp
  have p: "product ?st = None" by (simp add: sample_page_def)
  have l: "final (exec (fetchProductDetails ?st) sample_world) \<in> leaves (fetchProductDetails ?st)"
    by (rule exec_leaves)
  have f: "faults sample_world = []"
    by (simp add: sample_world_def)
  have "productId ?st = Some ''p1''"
    by (simp add: sample_page_def)
  moreover have "filter (\<lambda>p. p_id p = ''p1'') (products sample_world) = [sample_product]"
    by (simp add: sample_world_def sample_product_def)
  ultimately have q: "product (final (exec (fetchProductDetails ?st) sample_world))
      = Some sample_product"
    using f by (rule fetch_loads_product(1) [rotated])
  have d: "rating (final (exec (fetchProductDetails ?st) sample_world)) = 5"
    using default_rating_stars [of sample_product ?st sample_env] l u p q n by blast
  show ?thesis
    by (intro conjI) (rule n a r b u p q d | simp)+
qed

theorem price_format_witness:
  "\<not> loading sample_loaded \<and> product sample_loaded = Some sample_product
   \<and> faults sample_world = [] \<and> productId sample_page = Some ''p1''
   \<and> filter (\<lambda>q. p_id q = ''p1'') (products sample_world) = [sample_product]
   \<and> ProductCard_formattedPrice sample_env sample_product = ''NGN 2,500.00''
   \<and> price_text (ProductDetails_render sample_env sample_loaded) = ''NGN 2,500.00''
   \<and> price_text (ProductDetails_render sample_env
         (final (exec (fetchProductDetails sample_page) sample_world))) = ''NGN 2,500.00''"
proof -
  have a: "\<not> loading sample_loaded"
    by (simp add: sample_loaded_def)
  have b: "product sample_loaded = Some sample_product"
    by (simp add: sample_loaded_def)
  have f: "faults sample_world = []"
    by (simp add: sample_world_def)
  have i: "productId sample_page = Some ''p1''"
    by (simp add: sample_page_def)
  have o: "filter (\<lambda>q. p_id q = ''p1'') (products sample_world) = [sample_product]"
    by (simp add: sample_world_def sample_product_def)
  note t = price_format [of sample_env sample_product sample_card sample_loaded sample_world]
  note t' = price_format [of sample_env sample_product sample_card sample_page sample_world "''p1''"]
  have c: "ProductCard_formattedPrice sample_env sample_product = ''NGN 2,500.00''"
    using t by (simp add: sample_env_def)
  have d: "price_text (ProductDetails_render sample_env sample_loaded) = ''NGN 2,500.00''"
    using t a b c by simp
  have e: "price_text (ProductDetails_render sample_env
         (final (exec (fetchProductDetails sample_page) sample_world))) = ''NGN 2,500.00''"
    using t' f i o c by simp
  show ?thesis
    by (intro conjI) (rule a b f i o c d e)+
qed

subsection \<open>The receipt\<close>










end
